theory Spec2Isabelle
  imports Complex_Main "HOL-Library.List_Lexorder" "HOL-Library.Char_ord" "HOL-Library.Multiset"
begin

section \<open>MajikSubscription: the data model\<close>

text \<open>
  A shallow embedding of \<^verbatim>\<open>MajikSubscription\<close> (the class of the repository), of its
  type declarations and of the helpers of \<^verbatim>\<open>utils\<close>.

  Conventions of the embedding.
  \<^item> A JavaScript string is a \<open>string\<close> (a list of code units); the comparison
    operators on strings are the lexicographic order of the code units.
  \<^item> The numbers of the capacity domain (units, adjustments, quantities, month counts)
    are modelled as \<open>int\<close>: \<^verbatim>\<open>Number.isInteger\<close>, \<^verbatim>\<open>Number.isFinite\<close> and
    \<^verbatim>\<open>typeof x === "number"\<close> hold of every such value, so of the source's argument
    checks only the sign tests remain. The model covers the calls and the plans whose
    numbers are whole; the source takes any \<^verbatim>\<open>number\<close> for the units and the
    adjustments. The base amount and the growth rate of \<^verbatim>\<open>generateCapacityPlan\<close> and
    the margin ratios are exact rationals, where the source computes in doubles.
  \<^item> An object is a value: a record or a list of records. In the source the COS items and
    the entries of the plan are objects held by reference; an entry stored at two positions
    of a plan has one month, so the entries of a plan with distinct months are distinct
    objects.
  \<^item> An optional field or argument is an \<open>option\<close>.
  \<^item> A method that mutates the object takes the state and returns a pair: what the call
    produced (\<open>Inl\<close> the error it threw, \<open>Inr\<close> the value it returned) and the state
    the object is left in, also when the call threw.
  \<^item> What the source takes from its surroundings (the clock, the local time zone, the
    random identifiers, the parsing of date strings, the money library's conversion of
    major units) is a record \<open>env\<close> passed to the functions that read it.
\<close>

datatype SubscriptionStatus = ACTIVE | INACTIVE | SUSPENDED | CANCELLED

datatype SubscriptionType = RECURRING | ONE_TIME | TRIAL

datatype SubscriptionVisibility = PUBLIC | PRIVATE

datatype BillingCycle = DAILY | WEEKLY | MONTHLY | QUARTERLY | YEARLY

datatype RateUnit = PER_SUBSCRIBER | PER_ACCOUNT | PER_USER | PER_MONTH

datatype CapacityPeriodResizeMode = DEFAULT | DISTRIBUTE

text \<open>
  The source throws \<^verbatim>\<open>Error\<close> objects that differ in their message only; the
  constructors name the kinds of failure.
\<close>

datatype error =
    InvalidArgument
  | InvalidMonth
  | DuplicateMonth
  | MonthNotFound
  | NoCapacityPlan
  | EmptyPlan
  | InvalidRange
  | CurrencyMismatch
  | MissingField
  | COSNotFound
  | InvalidStartDate
  | InvalidDate

type_synonym YYYYMM = string

text \<open>
  Modelled from the spec: the money library (\<^verbatim>\<open>@thezelijah/majik-money\<close>) is not part
  of the repository. A monetary value is an amount in minor units with a currency code;
  \<open>add\<close>, \<open>subtract\<close> and \<open>ratio\<close> are currency-checked, \<open>multiply\<close> by a whole
  number is exact.
\<close>

record MajikMoney =
  minor :: int
  currency :: string

record COSItem =
  cos_id :: string
  item :: string
  unitCost :: MajikMoney
  quantity :: int
  subtotal :: MajikMoney
  cos_unit :: "string option"

record MonthlyCapacity =
  month :: YYYYMM
  capacity :: int
  adjustment :: "int option"

record ValueRatio =
  vr_value :: MajikMoney
  marginRatio :: rat

record GrossNet =
  gross :: ValueRatio
  net :: ValueRatio

record SubscriptionFinance =
  fin_profit :: GrossNet
  fin_revenue :: GrossNet
  fin_income :: GrossNet
  fin_cos :: GrossNet

record SubscriptionRate =
  amount :: MajikMoney
  rate_unit :: RateUnit
  billingCycle :: BillingCycle

record Description =
  desc_text :: string
  desc_html :: "string option"
  desc_seo :: "string option"

record SubscriptionMetadata =
  md_sku :: "string option"
  md_description :: Description
  md_photos :: "string list option"
  md_type :: SubscriptionType
  md_category :: string
  md_rate :: SubscriptionRate
  md_cos :: "COSItem list"
  md_capacityPlan :: "MonthlyCapacity list option"
  md_finance :: SubscriptionFinance

record SystemSettings =
  isRestricted :: bool
  restrictedUntil :: "string option"

record SubscriptionSettings =
  st_status :: SubscriptionStatus
  st_visibility :: SubscriptionVisibility
  st_system :: "SystemSettings option"

record MajikSubscription =
  sub_id :: string
  slug :: string
  sub_name :: string
  category :: string
  rate :: SubscriptionRate
  status :: SubscriptionStatus
  sub_type :: SubscriptionType
  timestamp :: string
  last_update :: string
  metadata :: SubscriptionMetadata
  settings :: SubscriptionSettings
  financeDirty :: bool

text \<open>
  The surroundings. \<open>nowISO\<close> is \<^verbatim>\<open>new Date().toISOString()\<close>; \<open>nowMonth\<close> is the
  UTC month of \<^verbatim>\<open>new Date()\<close>, as \<open>12 * year + monthIndex\<close>; \<open>tzOffset\<close> is the
  offset of local time from UTC in minutes (positive east of Greenwich);
  \<open>nanoid8\<close> and \<open>nanoid6\<close> are the random strings of \<^verbatim>\<open>autogenerateID\<close> and
  \<^verbatim>\<open>generateSlug\<close>; \<open>parseDate s\<close> is the UTC month of \<^verbatim>\<open>new Date(s)\<close>, or
  \<open>None\<close> when that is an invalid date; \<open>minorUnits a c\<close> is the number of minor
  units that the money library gives to the amount \<open>a\<close> in major units of the currency
  \<open>c\<close> (the decimal places of a currency and the rounding are the library's).
\<close>

record env =
  nowISO :: string
  nowMonth :: int
  tzOffset :: int
  nanoid8 :: string
  nanoid6 :: string
  parseDate :: "string \<Rightarrow> int option"
  minorUnits :: "rat \<Rightarrow> string \<Rightarrow> int"

type_synonym 'a result = "(error + 'a) \<times> MajikSubscription"

section \<open>utils: month keys and dates\<close>

text \<open>The class \<^verbatim>\<open>\d\<close> of a regular expression: the characters 0 to 9.\<close>

definition isDigit :: "char \<Rightarrow> bool" where
  "isDigit c = (c \<in> set ''0123456789'')"

text \<open>
  \<^verbatim>\<open>/^\d{4}-0[1-9]|1[0-2]$/.test(month)\<close>. The alternation binds weaker than the
  anchors and the sequence, so the expression has two alternatives: \<^verbatim>\<open>^\d{4}-0[1-9]\<close>,
  which is anchored at the start only, and \<^verbatim>\<open>1[0-2]$\<close>, which is anchored at the end
  only.
\<close>

definition matchesFirstAlternative :: "string \<Rightarrow> bool" where
  "matchesFirstAlternative m =
     (7 \<le> length m \<and> list_all isDigit (take 4 m) \<and> m ! 4 = CHR ''-'' \<and> m ! 5 = CHR ''0''
      \<and> m ! 6 \<in> set ''123456789'')"

definition matchesSecondAlternative :: "string \<Rightarrow> bool" where
  "matchesSecondAlternative m =
     (2 \<le> length m \<and> m ! (length m - 2) = CHR ''1'' \<and> m ! (length m - 1) \<in> set ''012'')"

definition isValidYYYYMM :: "string \<Rightarrow> bool" where
  "isValidYYYYMM m = (matchesFirstAlternative m \<or> matchesSecondAlternative m)"

text \<open>
  The pattern the month key is documented to have (the type \<^verbatim>\<open>YYYYMM\<close>, and the spec's
  ``4-digit year, 2-digit month 01--12''): four digits, a hyphen, and a month from 01 to
  12, and nothing else.
\<close>

definition wellFormedYYYYMM :: "string \<Rightarrow> bool" where
  "wellFormedYYYYMM m =
     (length m = 7 \<and> list_all isDigit (take 4 m) \<and> m ! 4 = CHR ''-''
      \<and> ((m ! 5 = CHR ''0'' \<and> m ! 6 \<in> set ''123456789'')
         \<or> (m ! 5 = CHR ''1'' \<and> m ! 6 \<in> set ''012'')))"

text \<open>
  \<^verbatim>\<open>String(n)\<close> of a whole number, \<^verbatim>\<open>padStart(2, "0")\<close>, \<^verbatim>\<open>split("-")\<close> and
  \<^verbatim>\<open>Number(s)\<close>. \<open>Number\<close> is modelled where the month keys need it: the empty string
  is 0 and a string of decimal digits is its value; \<open>None\<close> is NaN. The other spellings
  of a number (sign, fraction, exponent, radix prefix, surrounding white space) are outside
  the model and read as NaN.
\<close>

function showNat :: "nat \<Rightarrow> string" where
  "showNat n = (if n < 10 then [''0123456789'' ! n] else showNat (n div 10) @ [''0123456789'' ! (n mod 10)])"
  by pat_completeness auto
termination
  by (relation "measure id") auto

declare showNat.simps [simp del]

definition String_of :: "int \<Rightarrow> string" where
  "String_of n = (if n < 0 then CHR ''-'' # showNat (nat (- n)) else showNat (nat n))"

definition padStart2 :: "string \<Rightarrow> string" where
  "padStart2 s = replicate (2 - length s) CHR ''0'' @ s"

fun split_on :: "char \<Rightarrow> string \<Rightarrow> string list" where
  "split_on c [] = [[]]"
| "split_on c (x # xs) =
     (if x = c then [] # split_on c xs
      else (case split_on c xs of p # ps \<Rightarrow> (x # p) # ps | [] \<Rightarrow> [[x]]))"

definition digitValue :: "char \<Rightarrow> nat" where
  "digitValue c = of_char c - 48"

definition decimalValue :: "string \<Rightarrow> nat" where
  "decimalValue s = foldl (\<lambda>acc c. 10 * acc + digitValue c) 0 s"

definition Number_of :: "string \<Rightarrow> int option" where
  "Number_of s =
     (if s = [] then Some 0
      else if list_all isDigit s then Some (int (decimalValue s))
      else None)"

text \<open>
  Dates. Every \<^verbatim>\<open>Date\<close> the program builds is midnight of the first day of a month, and
  the program reads only its year and month. Such a date is modelled by its month number
  \<open>12 * year + monthIndex\<close> (so \<open>d div 12\<close> is the year and \<open>d mod 12\<close> the month index
  0..11), and \<open>None\<close> is the invalid date, whose getters return NaN.

  \<^verbatim>\<open>new Date(Date.UTC(year, month, 1))\<close>: a year from 0 to 99 stands for 1900 + year, a
  month outside 0..11 carries into the year, and the result is an invalid date when it is
  outside the range of time values (100,000,000 days either side of the epoch, which for a
  first of the month is May of the year -271821 to September of the year 275760).
\<close>

definition Date_UTC :: "int \<Rightarrow> int \<Rightarrow> int option" where
  "Date_UTC year monthIndex =
     (let y = (if 0 \<le> year \<and> year \<le> 99 then 1900 + year else year);
          d = 12 * y + monthIndex
      in if -271821 * 12 + 4 \<le> d \<and> d \<le> 275760 * 12 + 8 then Some d else None)"

definition getUTCFullYear :: "int \<Rightarrow> int" where
  "getUTCFullYear d = d div 12"

definition getUTCMonth :: "int \<Rightarrow> int" where
  "getUTCMonth d = d mod 12"

definition dateToYYYYMM :: "int option \<Rightarrow> error + YYYYMM" where
  "dateToYYYYMM date =
     (case date of
        None \<Rightarrow> Inl InvalidDate
      | Some d \<Rightarrow>
          Inr (String_of (getUTCFullYear d) @ ''-'' @ padStart2 (String_of (getUTCMonth d + 1))))"

text \<open>
  The key of the month numbered \<open>d\<close> (\<open>12 * year + monthIndex\<close>): the year in decimal,
  a hyphen, and the month padded to two digits, as \<^verbatim>\<open>dateToYYYYMM\<close> writes it.
\<close>

definition monthKey :: "int \<Rightarrow> YYYYMM" where
  "monthKey d = String_of (d div 12) @ ''-'' @ padStart2 (String_of (d mod 12 + 1))"

definition yyyyMMToDate :: "YYYYMM \<Rightarrow> int option" where
  "yyyyMMToDate yyyyMM =
     (let parts = map Number_of (split_on CHR ''-'' yyyyMM)
      in case (parts ! 0, if 1 < length parts then parts ! 1 else None) of
           (Some yyyy, Some mm) \<Rightarrow> Date_UTC yyyy (mm - 1)
         | _ \<Rightarrow> None)"

text \<open>The test \<^verbatim>\<open>/^\d{4}-\d{2}$/\<close> of \<^verbatim>\<open>normalizeStartDate\<close>.\<close>

definition matchesYearMonth :: "string \<Rightarrow> bool" where
  "matchesYearMonth s =
     (length s = 7 \<and> list_all isDigit (take 4 s) \<and> s ! 4 = CHR ''-'' \<and> list_all isDigit (drop 5 s))"

datatype StartDateInput = DateInput "int option" | StringInput string

text \<open>
  \<^verbatim>\<open>normalizeStartDate\<close>. A \<^verbatim>\<open>Date\<close> argument is given by the UTC month of its instant
  (\<open>None\<close> when it is an invalid date). The empty string is falsy and takes the first
  branch, as a missing argument does.
\<close>

definition normalizeStartDate :: "env \<Rightarrow> StartDateInput option \<Rightarrow> error + int option" where
  "normalizeStartDate e input =
     (case input of
        None \<Rightarrow> Inr (Date_UTC (getUTCFullYear (nowMonth e)) (getUTCMonth (nowMonth e)))
      | Some (StringInput s) \<Rightarrow>
          if s = [] then Inr (Date_UTC (getUTCFullYear (nowMonth e)) (getUTCMonth (nowMonth e)))
          else if matchesYearMonth s then
            (case map Number_of (split_on CHR ''-'' s) of
               [Some yyyy, Some mm] \<Rightarrow> Inr (Date_UTC yyyy (mm - 1))
             | _ \<Rightarrow> Inr None)
          else
            (case parseDate e s of
               Some d \<Rightarrow> Inr (Date_UTC (getUTCFullYear d) (getUTCMonth d))
             | None \<Rightarrow> Inl InvalidStartDate)
      | Some (DateInput date) \<Rightarrow>
          (case date of
             Some d \<Rightarrow> Inr (Date_UTC (getUTCFullYear d) (getUTCMonth d))
           | None \<Rightarrow> Inl InvalidStartDate))"

definition offsetMonthsToYYYYMM :: "env \<Rightarrow> StartDateInput \<Rightarrow> int \<Rightarrow> error + YYYYMM" where
  "offsetMonthsToYYYYMM e input offsetMonths =
     (case normalizeStartDate e (Some input) of
        Inl err \<Rightarrow> Inl err
      | Inr None \<Rightarrow> dateToYYYYMM None
      | Inr (Some date) \<Rightarrow>
          dateToYYYYMM (Date_UTC (getUTCFullYear date) (getUTCMonth date + offsetMonths)))"

text \<open>\<^verbatim>\<open>monthsInPeriod\<close>; \<open>None\<close> is NaN (one of the two dates is invalid).\<close>

definition monthsInPeriod :: "YYYYMM \<Rightarrow> YYYYMM \<Rightarrow> int option" where
  "monthsInPeriod earlier later =
     (case (yyyyMMToDate earlier, yyyyMMToDate later) of
        (Some start, Some end_date) \<Rightarrow>
          Some ((getUTCFullYear end_date - getUTCFullYear start) * 12
                + (getUTCMonth end_date - getUTCMonth start) + 1)
      | _ \<Rightarrow> None)"

text \<open>
  \<^verbatim>\<open>generateSlug\<close> and \<^verbatim>\<open>autogenerateID\<close>, with the random part read from the
  surroundings. \<open>toLowerCase\<close> is modelled on the letters A to Z.
\<close>

definition toLowerChar :: "char \<Rightarrow> char" where
  "toLowerChar c =
     (case map_of (zip ''ABCDEFGHIJKLMNOPQRSTUVWXYZ'' ''abcdefghijklmnopqrstuvwxyz'') c of
        None \<Rightarrow> c
      | Some l \<Rightarrow> l)"

definition isSlugChar :: "char \<Rightarrow> bool" where
  "isSlugChar c = ((97 \<le> (of_char c :: nat) \<and> (of_char c :: nat) \<le> 122) \<or> isDigit c)"

text \<open>
  \<^verbatim>\<open>replace(/[^a-z0-9]+/g, "-")\<close>: the flag says that the run of other characters
  being read has been replaced already.
\<close>

fun replaceRuns :: "bool \<Rightarrow> string \<Rightarrow> string" where
  "replaceRuns inRun [] = []"
| "replaceRuns inRun (c # cs) =
     (if isSlugChar c then c # replaceRuns False cs
      else if inRun then replaceRuns True cs
      else CHR ''-'' # replaceRuns True cs)"

definition stripDashes :: "string \<Rightarrow> string" where
  "stripDashes s = rev (dropWhile (\<lambda>c. c = CHR ''-'') (rev (dropWhile (\<lambda>c. c = CHR ''-'') s)))"

definition generateSlug :: "env \<Rightarrow> string \<Rightarrow> string" where
  "generateSlug e nm = stripDashes (replaceRuns False (map toLowerChar nm)) @ ''-'' @ nanoid6 e"

definition autogenerateID :: "env \<Rightarrow> string \<Rightarrow> string" where
  "autogenerateID e prefix = prefix @ ''-'' @ nanoid8 e"

section \<open>The money library\<close>

text \<open>
  Modelled from the spec: \<^verbatim>\<open>MajikMoney.fromMinor\<close>, \<open>add\<close>, \<open>subtract\<close>, \<open>multiply\<close>,
  \<open>isZero\<close> and \<open>ratio\<close> of the money library, which is not part of the repository.
\<close>

definition fromMinor :: "int \<Rightarrow> string \<Rightarrow> MajikMoney" where
  "fromMinor n code = \<lparr>minor = n, currency = code\<rparr>"

text \<open>
  Modelled from the spec: \<^verbatim>\<open>MajikMoney.fromMajor\<close>, money of the given currency from an
  amount in major units.
\<close>

definition fromMajor :: "env \<Rightarrow> rat \<Rightarrow> string \<Rightarrow> MajikMoney" where
  "fromMajor e amt code = \<lparr>minor = minorUnits e amt code, currency = code\<rparr>"

definition money_add :: "MajikMoney \<Rightarrow> MajikMoney \<Rightarrow> error + MajikMoney" where
  "money_add a b =
     (if currency a = currency b then Inr (a\<lparr>minor := minor a + minor b\<rparr>) else Inl CurrencyMismatch)"

definition money_subtract :: "MajikMoney \<Rightarrow> MajikMoney \<Rightarrow> error + MajikMoney" where
  "money_subtract a b =
     (if currency a = currency b then Inr (a\<lparr>minor := minor a - minor b\<rparr>) else Inl CurrencyMismatch)"

definition money_multiply :: "MajikMoney \<Rightarrow> int \<Rightarrow> MajikMoney" where
  "money_multiply a n = a\<lparr>minor := minor a * n\<rparr>"

definition money_isZero :: "MajikMoney \<Rightarrow> bool" where
  "money_isZero a = (minor a = 0)"

definition money_ratio :: "MajikMoney \<Rightarrow> MajikMoney \<Rightarrow> error + rat" where
  "money_ratio a b =
     (if currency a = currency b then Inr (of_int (minor a) / of_int (minor b)) else Inl CurrencyMismatch)"

text \<open>
  \<^verbatim>\<open>acc.add(x)\<close> folded over an array (\<^verbatim>\<open>reduce\<close>) from a seed: the first currency
  mismatch is thrown.
\<close>

fun reduce_add :: "MajikMoney \<Rightarrow> MajikMoney list \<Rightarrow> error + MajikMoney" where
  "reduce_add acc [] = Inr acc"
| "reduce_add acc (x # xs) =
     (case money_add acc x of Inl err \<Rightarrow> Inl err | Inr acc' \<Rightarrow> reduce_add acc' xs)"

section \<open>The class MajikSubscription\<close>

subsection \<open>Construction\<close>

definition createZeroValueRatio :: "string \<Rightarrow> ValueRatio" where
  "createZeroValueRatio currencyCode = \<lparr>vr_value = fromMinor 0 currencyCode, marginRatio = 0\<rparr>"

definition createEmptySubscriptionFinance :: "string \<Rightarrow> SubscriptionFinance" where
  "createEmptySubscriptionFinance currencyCode =
     \<lparr>fin_profit = \<lparr>gross = createZeroValueRatio currencyCode, net = createZeroValueRatio currencyCode\<rparr>,
      fin_revenue = \<lparr>gross = createZeroValueRatio currencyCode, net = createZeroValueRatio currencyCode\<rparr>,
      fin_income = \<lparr>gross = createZeroValueRatio currencyCode, net = createZeroValueRatio currencyCode\<rparr>,
      fin_cos = \<lparr>gross = createZeroValueRatio currencyCode, net = createZeroValueRatio currencyCode\<rparr>\<rparr>"

text \<open>\<^verbatim>\<open>a || b\<close> on strings: the empty string and a missing value are falsy.\<close>

definition orElse :: "string option \<Rightarrow> string \<Rightarrow> string" where
  "orElse a b = (case a of None \<Rightarrow> b | Some x \<Rightarrow> if x = [] then b else x)"

text \<open>
  The constructor. A missing \<open>timestamp\<close> or \<open>last_update\<close> takes its default, the
  current time; the field \<open>financeDirty\<close> starts as \<open>true\<close>.
\<close>

definition defaultSettings :: SubscriptionSettings where
  "defaultSettings =
     \<lparr>st_status = ACTIVE, st_visibility = PRIVATE,
      st_system = Some \<lparr>isRestricted = False, restrictedUntil = None\<rparr>\<rparr>"

definition new_MajikSubscription ::
  "env \<Rightarrow> string option \<Rightarrow> string option \<Rightarrow> string \<Rightarrow> SubscriptionMetadata
     \<Rightarrow> SubscriptionSettings option \<Rightarrow> string option \<Rightarrow> string option \<Rightarrow> MajikSubscription" where
  "new_MajikSubscription e ident slg nm md sett ts lu =
     (let sett' = (case sett of Some x \<Rightarrow> x | None \<Rightarrow> defaultSettings) in
      \<lparr>sub_id = orElse ident (autogenerateID e ''mjksub''),
       slug = orElse slg (generateSlug e nm),
       sub_name = nm,
       category = md_category md,
       rate = md_rate md,
       status = st_status sett',
       sub_type = md_type md,
       timestamp = (case ts of Some t \<Rightarrow> t | None \<Rightarrow> nowISO e),
       last_update = (case lu of Some t \<Rightarrow> t | None \<Rightarrow> nowISO e),
       metadata = md,
       settings = sett',
       financeDirty = True\<rparr>)"

text \<open>
  \<^verbatim>\<open>trim()\<close> strips white space at both ends. The white space modelled is what a code
  unit below 256 can be: tab to carriage return, the space and the no-break space.
\<close>

definition isWhiteSpace :: "char \<Rightarrow> bool" where
  "isWhiteSpace c =
     ((9 \<le> (of_char c :: nat) \<and> (of_char c :: nat) \<le> 13) \<or> (of_char c :: nat) = 32
      \<or> (of_char c :: nat) = 160)"

definition trim :: "string \<Rightarrow> string" where
  "trim s = rev (dropWhile isWhiteSpace (rev (dropWhile isWhiteSpace s)))"

text \<open>
  \<^verbatim>\<open>initialize\<close>; the defaults of the parameters \<open>type\<close> and \<open>category\<close> are the
  caller's. The metadata it builds has no \<open>capacityPlan\<close> field.
\<close>

definition initialize ::
  "env \<Rightarrow> string \<Rightarrow> SubscriptionType \<Rightarrow> SubscriptionRate \<Rightarrow> string \<Rightarrow> string option
     \<Rightarrow> string option \<Rightarrow> error + MajikSubscription" where
  "initialize e nm ty rt cat descriptionText skuID =
     (if trim nm = [] then Inl InvalidArgument
      else if trim cat = [] then Inl InvalidArgument
      else Inr (new_MajikSubscription e None None nm
        \<lparr>md_sku = (case skuID of None \<Rightarrow> None | Some x \<Rightarrow> if x = [] then None else Some x),
         md_description =
           \<lparr>desc_text = orElse descriptionText ''A new subscription.'', desc_html = None, desc_seo = None\<rparr>,
         md_photos = None,
         md_type = ty,
         md_category = cat,
         md_rate = rt,
         md_cos = [],
         md_capacityPlan = None,
         md_finance = createEmptySubscriptionFinance (currency (amount rt))\<rparr>
        (Some defaultSettings) None None))"

subsection \<open>Private helpers\<close>

definition markFinanceDirty :: "MajikSubscription \<Rightarrow> MajikSubscription" where
  "markFinanceDirty s = s\<lparr>financeDirty := True\<rparr>"

definition updateTimestamp :: "env \<Rightarrow> MajikSubscription \<Rightarrow> MajikSubscription" where
  "updateTimestamp e s = s\<lparr>last_update := nowISO e\<rparr>"

text \<open>
  \<^verbatim>\<open>DEFAULT_ZERO()\<close> without an argument: the currency code of the rate, or \<^verbatim>\<open>"PHP"\<close>
  when that code is the empty string.
\<close>

definition DEFAULT_ZERO :: "MajikSubscription \<Rightarrow> MajikMoney" where
  "DEFAULT_ZERO s = fromMinor 0 (orElse (Some (currency (amount (rate s)))) ''PHP'')"

text \<open>\<^verbatim>\<open>assertCurrency\<close>: the error it throws, if any.\<close>

definition assertCurrency :: "MajikSubscription \<Rightarrow> MajikMoney \<Rightarrow> error option" where
  "assertCurrency s money =
     (if currency money = currency (amount (rate s)) then None else Some CurrencyMismatch)"

definition set_cos :: "COSItem list \<Rightarrow> MajikSubscription \<Rightarrow> MajikSubscription" where
  "set_cos xs s = s\<lparr>metadata := (metadata s)\<lparr>md_cos := xs\<rparr>\<rparr>"

definition set_capacityPlan :: "MonthlyCapacity list option \<Rightarrow> MajikSubscription \<Rightarrow> MajikSubscription" where
  "set_capacityPlan p s = s\<lparr>metadata := (metadata s)\<lparr>md_capacityPlan := p\<rparr>\<rparr>"

text \<open>\<^verbatim>\<open>findIndex\<close>: the index of the first element that satisfies the test.\<close>

fun findIndex :: "('a \<Rightarrow> bool) \<Rightarrow> 'a list \<Rightarrow> nat option" where
  "findIndex P [] = None"
| "findIndex P (x # xs) =
     (if P x then Some 0 else (case findIndex P xs of None \<Rightarrow> None | Some i \<Rightarrow> Some (Suc i)))"

subsection \<open>Metadata helpers\<close>

definition setName :: "env \<Rightarrow> string \<Rightarrow> MajikSubscription \<Rightarrow> unit result" where
  "setName e nm s = (Inr (), updateTimestamp e (s\<lparr>sub_name := nm, slug := generateSlug e nm\<rparr>))"

definition setRate :: "env \<Rightarrow> SubscriptionRate \<Rightarrow> MajikSubscription \<Rightarrow> unit result" where
  "setRate e rt s =
     (Inr (), markFinanceDirty (updateTimestamp e
        (s\<lparr>rate := rt, metadata := (metadata s)\<lparr>md_rate := rt\<rparr>\<rparr>)))"

definition setRateUnit :: "env \<Rightarrow> RateUnit \<Rightarrow> MajikSubscription \<Rightarrow> unit result" where
  "setRateUnit e u s =
     (Inr (), markFinanceDirty (updateTimestamp e
        (s\<lparr>rate := (rate s)\<lparr>rate_unit := u\<rparr>,
           metadata := (metadata s)\<lparr>md_rate := (md_rate (metadata s))\<lparr>rate_unit := u\<rparr>\<rparr>\<rparr>)))"

text \<open>
  \<^verbatim>\<open>setRateAmount\<close>: the amount of \<^verbatim>\<open>this.rate\<close> is written first, then that of
  \<^verbatim>\<open>this.metadata.rate\<close>, each in the currency its own amount has at that moment.
\<close>

definition setRateAmount :: "env \<Rightarrow> rat \<Rightarrow> MajikSubscription \<Rightarrow> unit result" where
  "setRateAmount e amt s =
     (if amt \<le> 0 then (Inl InvalidArgument, s)
      else
        (let s1 = s\<lparr>rate := (rate s)\<lparr>amount := fromMajor e amt (currency (amount (rate s)))\<rparr>\<rparr>;
             s2 = s1\<lparr>metadata := (metadata s1)
                    \<lparr>md_rate := (md_rate (metadata s1))
                       \<lparr>amount := fromMajor e amt (currency (amount (md_rate (metadata s1))))\<rparr>\<rparr>\<rparr>
         in (Inr (), markFinanceDirty (updateTimestamp e s2))))"

definition setCategory :: "env \<Rightarrow> string \<Rightarrow> MajikSubscription \<Rightarrow> unit result" where
  "setCategory e cat s =
     (Inr (), updateTimestamp e (s\<lparr>category := cat, metadata := (metadata s)\<lparr>md_category := cat\<rparr>\<rparr>))"

definition set_description :: "Description \<Rightarrow> MajikSubscription \<Rightarrow> MajikSubscription" where
  "set_description d s = s\<lparr>metadata := (metadata s)\<lparr>md_description := d\<rparr>\<rparr>"

definition setDescription :: "env \<Rightarrow> string \<Rightarrow> string \<Rightarrow> MajikSubscription \<Rightarrow> unit result" where
  "setDescription e html txt s =
     (if trim html = [] then (Inl InvalidArgument, s)
      else if trim txt = [] then (Inl InvalidArgument, s)
      else (Inr (), updateTimestamp e
              (set_description ((md_description (metadata s))\<lparr>desc_html := Some html, desc_text := txt\<rparr>) s)))"

definition setDescriptionText :: "env \<Rightarrow> string \<Rightarrow> MajikSubscription \<Rightarrow> unit result" where
  "setDescriptionText e txt s =
     (if trim txt = [] then (Inl InvalidArgument, s)
      else (Inr (), updateTimestamp e
              (set_description ((md_description (metadata s))\<lparr>desc_text := txt\<rparr>) s)))"

definition setDescriptionHTML :: "env \<Rightarrow> string \<Rightarrow> MajikSubscription \<Rightarrow> unit result" where
  "setDescriptionHTML e html s =
     (if trim html = [] then (Inl InvalidArgument, s)
      else (Inr (), updateTimestamp e
              (set_description ((md_description (metadata s))\<lparr>desc_html := Some html\<rparr>) s)))"

definition setDescriptionSEO :: "env \<Rightarrow> string \<Rightarrow> MajikSubscription \<Rightarrow> unit result" where
  "setDescriptionSEO e txt s =
     (if trim txt = [] then
        (Inr (), updateTimestamp e (set_description ((md_description (metadata s))\<lparr>desc_seo := None\<rparr>) s))
      else
        (Inr (), updateTimestamp e (set_description ((md_description (metadata s))\<lparr>desc_seo := Some txt\<rparr>) s)))"

text \<open>
  \<^verbatim>\<open>setType\<close>: every value of the type \<open>SubscriptionType\<close> is one of the enum, so the
  test of the source never throws here.
\<close>

definition setType :: "env \<Rightarrow> SubscriptionType \<Rightarrow> MajikSubscription \<Rightarrow> unit result" where
  "setType e ty s =
     (Inr (), updateTimestamp e (s\<lparr>metadata := (metadata s)\<lparr>md_type := ty\<rparr>, sub_type := ty\<rparr>))"

subsection \<open>COS management\<close>

definition addCOS ::
  "env \<Rightarrow> string \<Rightarrow> MajikMoney \<Rightarrow> int \<Rightarrow> string option \<Rightarrow> MajikSubscription \<Rightarrow> unit result" where
  "addCOS e nm cost q u s =
     (if trim nm = [] then (Inl InvalidArgument, s)
      else if q \<le> 0 then (Inl InvalidArgument, s)
      else (case assertCurrency s cost of
              Some err \<Rightarrow> (Inl err, s)
            | None \<Rightarrow>
                (Inr (), markFinanceDirty (updateTimestamp e
                   (set_cos (md_cos (metadata s) @
                      [\<lparr>cos_id = autogenerateID e ''mjksubcost'', item = nm, unitCost = cost,
                        quantity = q, subtotal = money_multiply cost q, cos_unit = u\<rparr>]) s)))))"

definition pushCOS :: "env \<Rightarrow> COSItem \<Rightarrow> MajikSubscription \<Rightarrow> unit result" where
  "pushCOS e it s =
     (if cos_id it = [] then (Inl InvalidArgument, s)
      else if trim (item it) = [] then (Inl InvalidArgument, s)
      else if quantity it \<le> 0 then (Inl InvalidArgument, s)
      else (case assertCurrency s (unitCost it) of
              Some err \<Rightarrow> (Inl err, s)
            | None \<Rightarrow>
                (Inr (), markFinanceDirty (updateTimestamp e
                   (set_cos (md_cos (metadata s) @
                      [it\<lparr>subtotal := money_multiply (unitCost it) (quantity it)\<rparr>]) s)))))"

text \<open>
  \<^verbatim>\<open>updateCOS\<close>. The item found is an element of the list of the object, and every
  assignment to one of its fields writes the object's state at once: the state \<open>s1\<close>
  below is the object after \<^verbatim>\<open>item.quantity = updates.quantity\<close>, and it is the state
  in which \<^verbatim>\<open>assertCurrency\<close> throws.
\<close>

record COSUpdates =
  upd_quantity :: "int option"
  upd_unitCost :: "MajikMoney option"
  upd_unit :: "string option"
  upd_item :: "string option"

definition updateCOS :: "env \<Rightarrow> string \<Rightarrow> COSUpdates \<Rightarrow> MajikSubscription \<Rightarrow> unit result" where
  "updateCOS e ident updates s =
     (case findIndex (\<lambda>c. cos_id c = ident) (md_cos (metadata s)) of
        None \<Rightarrow> (Inl COSNotFound, s)
      | Some i \<Rightarrow>
          (let it0 = md_cos (metadata s) ! i in
           if (case upd_quantity updates of Some q \<Rightarrow> q \<le> 0 | None \<Rightarrow> False)
           then (Inl InvalidArgument, s)
           else
             (let it1 = (case upd_quantity updates of Some q \<Rightarrow> it0\<lparr>quantity := q\<rparr> | None \<Rightarrow> it0);
                  s1 = set_cos ((md_cos (metadata s))[i := it1]) s
              in case (case upd_unitCost updates of Some c \<Rightarrow> assertCurrency s1 c | None \<Rightarrow> None) of
                   Some err \<Rightarrow> (Inl err, s1)
                 | None \<Rightarrow>
                     (let it2 = (case upd_unitCost updates of Some c \<Rightarrow> it1\<lparr>unitCost := c\<rparr> | None \<Rightarrow> it1);
                          it3 = (case upd_item updates of
                                   Some nm \<Rightarrow> if trim nm = [] then it2 else it2\<lparr>item := nm\<rparr>
                                 | None \<Rightarrow> it2);
                          it4 = it3\<lparr>cos_unit := (case upd_unit updates of Some u \<Rightarrow> Some u | None \<Rightarrow> cos_unit it3)\<rparr>;
                          it5 = it4\<lparr>subtotal := money_multiply (unitCost it4) (quantity it4)\<rparr>
                      in (Inr (), markFinanceDirty (updateTimestamp e
                            (set_cos ((md_cos (metadata s))[i := it5]) s)))))))"

text \<open>
  \<^verbatim>\<open>setCOS\<close>: every item is checked before the list is replaced. The fields of an item
  are present by its type; the identifier and the name must be non-empty.
\<close>

definition setCOS :: "env \<Rightarrow> COSItem list \<Rightarrow> MajikSubscription \<Rightarrow> unit result" where
  "setCOS e items s =
     (case findIndex (\<lambda>it. cos_id it = [] \<or> item it = [] \<or> assertCurrency s (unitCost it) = Some CurrencyMismatch) items of
        Some i \<Rightarrow>
          (if cos_id (items ! i) = [] \<or> item (items ! i) = [] then (Inl InvalidArgument, s)
           else (Inl CurrencyMismatch, s))
      | None \<Rightarrow> (Inr (), markFinanceDirty (updateTimestamp e (set_cos items s))))"

definition removeCOS :: "env \<Rightarrow> string \<Rightarrow> MajikSubscription \<Rightarrow> unit result" where
  "removeCOS e ident s =
     (case findIndex (\<lambda>c. cos_id c = ident) (md_cos (metadata s)) of
        None \<Rightarrow> (Inl COSNotFound, s)
      | Some i \<Rightarrow>
          (Inr (), markFinanceDirty (updateTimestamp e
             (set_cos (take i (md_cos (metadata s)) @ drop (Suc i) (md_cos (metadata s))) s))))"

definition clearCostBreakdown :: "env \<Rightarrow> MajikSubscription \<Rightarrow> unit result" where
  "clearCostBreakdown e s = (Inr (), markFinanceDirty (updateTimestamp e (set_cos [] s)))"

subsection \<open>Capacity management\<close>

definition hasCapacity :: "MajikSubscription \<Rightarrow> bool" where
  "hasCapacity s = (case md_capacityPlan (metadata s) of None \<Rightarrow> False | Some p \<Rightarrow> 0 < length p)"


definition planOrEmpty :: "MajikSubscription \<Rightarrow> MonthlyCapacity list" where
  "planOrEmpty s = (case md_capacityPlan (metadata s) of None \<Rightarrow> [] | Some p \<Rightarrow> p)"

definition totalCapacity :: "MajikSubscription \<Rightarrow> int" where
  "totalCapacity s = foldl (\<lambda>sum c. sum + capacity c + (case adjustment c of None \<Rightarrow> 0 | Some a \<Rightarrow> a)) 0 (planOrEmpty s)"

text \<open>
  \<^verbatim>\<open>setCapacity\<close>: the month of every entry is tested with \<^verbatim>\<open>isValidYYYYMM\<close>, then
  the plan is replaced by a copy of the array.
\<close>

definition setCapacity :: "env \<Rightarrow> MonthlyCapacity list \<Rightarrow> MajikSubscription \<Rightarrow> unit result" where
  "setCapacity e capacityPlan s =
     (if list_all (\<lambda>c. isValidYYYYMM (month c)) capacityPlan
      then (Inr (), markFinanceDirty (updateTimestamp e (set_capacityPlan (Some capacityPlan) s)))
      else (Inl InvalidMonth, s))"

text \<open>
  \<^verbatim>\<open>generateCapacityPlan\<close>. The start is a date at midnight UTC of the first of a month,
  and the loop reads it with the getters of local time, \<^verbatim>\<open>getFullYear\<close> and
  \<^verbatim>\<open>getMonth\<close>: west of Greenwich that instant is still in the month before.
  \<^verbatim>\<open>new Date(y, m + i, 1)\<close> is midnight local time of the first of a month, and its
  local getters return that month; a year from 0 to 99 stands for 1900 + year there, as in
  \<^verbatim>\<open>Date.UTC\<close>. \<^verbatim>\<open>Math.round\<close> rounds half up.
\<close>

definition localMonthOfUTCFirst :: "env \<Rightarrow> int \<Rightarrow> int" where
  "localMonthOfUTCFirst e d = (if tzOffset e < 0 then d - 1 else d)"

definition getFullYear :: "env \<Rightarrow> int \<Rightarrow> int" where
  "getFullYear e d = localMonthOfUTCFirst e d div 12"

definition getMonth :: "env \<Rightarrow> int \<Rightarrow> int" where
  "getMonth e d = localMonthOfUTCFirst e d mod 12"

definition Date_local :: "int \<Rightarrow> int \<Rightarrow> int option" where
  "Date_local year monthIndex = Date_UTC year monthIndex"

definition Math_round :: "rat \<Rightarrow> int" where
  "Math_round x = \<lfloor>x + 1 / 2\<rfloor>"

definition localMonthKey :: "int option \<Rightarrow> string" where
  "localMonthKey date =
     (case date of
        None \<Rightarrow> ''NaN-NaN''
      | Some d \<Rightarrow> String_of (d div 12) @ ''-'' @ padStart2 (String_of (d mod 12 + 1)))"

function generateLoop ::
  "env \<Rightarrow> int \<Rightarrow> int option \<Rightarrow> rat \<Rightarrow> rat \<Rightarrow> int \<Rightarrow> MonthlyCapacity list \<Rightarrow> MonthlyCapacity list" where
  "generateLoop e months start growthRate currentUnits i supplyPlan =
     (if i < months then
        (let date = (case start of
                       None \<Rightarrow> None
                     | Some d \<Rightarrow> Date_local (getFullYear e d) (getMonth e d + i))
         in generateLoop e months start growthRate
              (if 0 < growthRate then currentUnits * (1 + growthRate) else currentUnits)
              (i + 1)
              (supplyPlan @ [\<lparr>month = localMonthKey date, capacity = Math_round currentUnits, adjustment = None\<rparr>]))
      else supplyPlan)"
  by pat_completeness auto
termination
  by (relation "measure (\<lambda>(e, months, start, growthRate, currentUnits, i, supplyPlan). nat (months - i))") auto

declare generateLoop.simps [simp del]

definition generateCapacityPlan ::
  "env \<Rightarrow> int \<Rightarrow> rat \<Rightarrow> rat \<Rightarrow> StartDateInput option \<Rightarrow> MajikSubscription \<Rightarrow> unit result" where
  "generateCapacityPlan e months amt growthRate startDate s =
     (if months \<le> 0 then (Inl InvalidArgument, s)
      else if amt < 0 then (Inl InvalidArgument, s)
      else if growthRate < 0 then (Inl InvalidArgument, s)
      else (case normalizeStartDate e startDate of
              Inl err \<Rightarrow> (Inl err, s)
            | Inr start \<Rightarrow> setCapacity e (generateLoop e months start growthRate amt 0 []) s))"

definition normalizeCapacityUnits :: "env \<Rightarrow> int \<Rightarrow> MajikSubscription \<Rightarrow> unit result" where
  "normalizeCapacityUnits e amt s =
     (if amt < 0 then (Inl InvalidArgument, s)
      else (case md_capacityPlan (metadata s) of
              None \<Rightarrow> (Inl EmptyPlan, s)
            | Some supply \<Rightarrow>
                if length supply = 0 then (Inl EmptyPlan, s)
                else if length supply = 1 then (Inr (), s)
                else (Inr (), markFinanceDirty (updateTimestamp e
                        (set_capacityPlan (Some (map (\<lambda>c. c\<lparr>capacity := amt\<rparr>) supply)) s)))))"

text \<open>
  \<^verbatim>\<open>recomputeCapacityPeriod\<close>. \<^verbatim>\<open>total % newLength\<close> is the remainder of the
  truncating division (it has the sign of \<open>total\<close>), and \<^verbatim>\<open>Math.floor(total / newLength)\<close>
  the quotient of the flooring one. The two loops test \<^verbatim>\<open>i < newLength\<close>, which is
  false when \<open>newLength\<close> is NaN.
\<close>

definition js_remainder :: "int \<Rightarrow> int \<Rightarrow> int" where
  "js_remainder a b = sgn a * (\<bar>a\<bar> mod \<bar>b\<bar>)"

function defaultLoop ::
  "env \<Rightarrow> YYYYMM \<Rightarrow> int \<Rightarrow> MonthlyCapacity list \<Rightarrow> int \<Rightarrow> MonthlyCapacity list
     \<Rightarrow> error + MonthlyCapacity list" where
  "defaultLoop e start newLength oldPlan i newPlan =
     (if i < newLength then
        (let source = (if i < int (length oldPlan) then oldPlan ! nat i
                       else oldPlan ! (length oldPlan - 1))
         in case offsetMonthsToYYYYMM e (StringInput start) i of
              Inl err \<Rightarrow> Inl err
            | Inr m \<Rightarrow>
                defaultLoop e start newLength oldPlan (i + 1)
                  (newPlan @ [\<lparr>month = m, capacity = capacity source, adjustment = adjustment source\<rparr>]))
      else Inr newPlan)"
  by pat_completeness auto
termination
  by (relation "measure (\<lambda>(e, start, newLength, oldPlan, i, newPlan). nat (newLength - i))") auto

declare defaultLoop.simps [simp del]

function distributeLoop ::
  "env \<Rightarrow> YYYYMM \<Rightarrow> int \<Rightarrow> int \<Rightarrow> int \<Rightarrow> int \<Rightarrow> MonthlyCapacity list
     \<Rightarrow> error + MonthlyCapacity list" where
  "distributeLoop e start newLength base remainder i newPlan =
     (if i < newLength then
        (let extra = (if 0 < remainder then 1 else 0)
         in case offsetMonthsToYYYYMM e (StringInput start) i of
              Inl err \<Rightarrow> Inl err
            | Inr m \<Rightarrow>
                distributeLoop e start newLength base (remainder - 1) (i + 1)
                  (newPlan @ [\<lparr>month = m, capacity = base + extra, adjustment = None\<rparr>]))
      else Inr newPlan)"
  by pat_completeness auto
termination
  by (relation "measure (\<lambda>(e, start, newLength, base, remainder, i, newPlan). nat (newLength - i))") auto

declare distributeLoop.simps [simp del]

definition recomputeCapacityPeriod ::
  "env \<Rightarrow> YYYYMM \<Rightarrow> YYYYMM \<Rightarrow> CapacityPeriodResizeMode \<Rightarrow> MajikSubscription \<Rightarrow> unit result" where
  "recomputeCapacityPeriod e start end_month mode s =
     (if isValidYYYYMM start \<and> isValidYYYYMM end_month then
        if hasCapacity s then
          if end_month < start then (Inl InvalidRange, s)
          else
            (let oldPlan = planOrEmpty s in
             case (case monthsInPeriod start end_month of
                     None \<Rightarrow> Inr []
                   | Some newLength \<Rightarrow>
                       (case (if mode = DEFAULT then defaultLoop e start newLength oldPlan 0 []
                              else Inr []) of
                          Inl err \<Rightarrow> Inl err
                        | Inr newPlan \<Rightarrow>
                            if mode = DISTRIBUTE then
                              distributeLoop e start newLength
                                (totalCapacity s div newLength)
                                (js_remainder (totalCapacity s) newLength) 0 newPlan
                            else Inr newPlan)) of
               Inl err \<Rightarrow> (Inl err, s)
             | Inr newPlan \<Rightarrow>
                 (Inr (), markFinanceDirty (updateTimestamp e (set_capacityPlan (Some newPlan) s))))
        else (Inl NoCapacityPlan, s)
      else (Inl InvalidRange, s))"

text \<open>
  \<^verbatim>\<open>addCapacity\<close>: \<^verbatim>\<open>this.metadata.capacityPlan ??= []\<close> is written before the test
  for the month.
\<close>

definition addCapacity ::
  "env \<Rightarrow> YYYYMM \<Rightarrow> int \<Rightarrow> int option \<Rightarrow> MajikSubscription \<Rightarrow> unit result" where
  "addCapacity e m units adj s =
     (if isValidYYYYMM m then
        (let s1 = set_capacityPlan (Some (planOrEmpty s)) s in
         if list_ex (\<lambda>c. month c = m) (planOrEmpty s1) then (Inl DuplicateMonth, s1)
         else (Inr (), markFinanceDirty (updateTimestamp e
                 (set_capacityPlan
                    (Some (planOrEmpty s1 @ [\<lparr>month = m, capacity = units, adjustment = adj\<rparr>])) s1))))
      else (Inl InvalidMonth, s))"

definition updateCapacityUnits :: "env \<Rightarrow> YYYYMM \<Rightarrow> int \<Rightarrow> MajikSubscription \<Rightarrow> unit result" where
  "updateCapacityUnits e m units s =
     (if isValidYYYYMM m then
        (case findIndex (\<lambda>c. month c = m) (planOrEmpty s) of
           None \<Rightarrow> (Inl MonthNotFound, s)
         | Some i \<Rightarrow>
             (Inr (), markFinanceDirty (updateTimestamp e
                (set_capacityPlan (Some ((planOrEmpty s)[i := (planOrEmpty s ! i)\<lparr>capacity := units\<rparr>])) s))))
      else (Inl InvalidMonth, s))"

definition updateCapacityAdjustment ::
  "env \<Rightarrow> YYYYMM \<Rightarrow> int option \<Rightarrow> MajikSubscription \<Rightarrow> unit result" where
  "updateCapacityAdjustment e m adj s =
     (if isValidYYYYMM m then
        (case findIndex (\<lambda>c. month c = m) (planOrEmpty s) of
           None \<Rightarrow> (Inl MonthNotFound, s)
         | Some i \<Rightarrow>
             (Inr (), markFinanceDirty (updateTimestamp e
                (set_capacityPlan (Some ((planOrEmpty s)[i := (planOrEmpty s ! i)\<lparr>adjustment := adj\<rparr>])) s))))
      else (Inl InvalidMonth, s))"

definition removeCapacity :: "env \<Rightarrow> YYYYMM \<Rightarrow> MajikSubscription \<Rightarrow> unit result" where
  "removeCapacity e m s =
     (if isValidYYYYMM m then
        (case findIndex (\<lambda>c. month c = m) (planOrEmpty s) of
           None \<Rightarrow> (Inl MonthNotFound, s)
         | Some i \<Rightarrow>
             (Inr (), markFinanceDirty (updateTimestamp e
                (set_capacityPlan (Some (take i (planOrEmpty s) @ drop (Suc i) (planOrEmpty s))) s))))
      else (Inl InvalidMonth, s))"

definition clearCapacity :: "env \<Rightarrow> MajikSubscription \<Rightarrow> unit result" where
  "clearCapacity e s = (Inr (), markFinanceDirty (updateTimestamp e (set_capacityPlan (Some []) s)))"

subsection \<open>Finance helpers\<close>

definition computeGrossRevenue :: "MajikSubscription \<Rightarrow> error + MajikMoney" where
  "computeGrossRevenue s =
     reduce_add (DEFAULT_ZERO s)
       (map (\<lambda>c. money_multiply (amount (rate s))
                     (capacity c + (case adjustment c of None \<Rightarrow> 0 | Some a \<Rightarrow> a)))
            (planOrEmpty s))"

definition computeGrossCOS :: "MajikSubscription \<Rightarrow> error + MajikMoney" where
  "computeGrossCOS s =
     (case reduce_add (DEFAULT_ZERO s) (map subtotal (md_cos (metadata s))) of
        Inl err \<Rightarrow> Inl err
      | Inr unitCOS \<Rightarrow>
          reduce_add (DEFAULT_ZERO s)
            (map (\<lambda>c. money_multiply unitCOS
                          (capacity c + (case adjustment c of None \<Rightarrow> 0 | Some a \<Rightarrow> a)))
                 (planOrEmpty s)))"

definition computeGrossProfit :: "MajikSubscription \<Rightarrow> error + MajikMoney" where
  "computeGrossProfit s =
     (case computeGrossRevenue s of
        Inl err \<Rightarrow> Inl err
      | Inr revenue \<Rightarrow>
          (case computeGrossCOS s of
             Inl err \<Rightarrow> Inl err
           | Inr cosAmount \<Rightarrow> money_subtract revenue cosAmount))"

text \<open>
  \<^verbatim>\<open>recomputeFinance\<close>: nothing is done unless the flag is set. \<open>financeSnapshot\<close> is
  the object literal the method assigns to \<^verbatim>\<open>this.metadata.finance\<close>, with the values
  computed for it in the order of the source; the snapshot and the flag are written after
  every computation has returned, so an error leaves the object as it was.
\<close>

definition financeSnapshot :: "MajikSubscription \<Rightarrow> error + SubscriptionFinance" where
  "financeSnapshot s =
     (case computeGrossRevenue s of
        Inl err \<Rightarrow> Inl err
      | Inr grossRevenue \<Rightarrow>
     (case computeGrossCOS s of
        Inl err \<Rightarrow> Inl err
      | Inr grossCOS \<Rightarrow>
     (case computeGrossProfit s of
        Inl err \<Rightarrow> Inl err
      | Inr grossProfit \<Rightarrow>
     (case (if money_isZero grossRevenue then Inr 0 else money_ratio grossProfit grossRevenue) of
        Inl err \<Rightarrow> Inl err
      | Inr revenueMargin \<Rightarrow>
     (case (if money_isZero grossRevenue then Inr 0 else money_ratio grossCOS grossRevenue) of
        Inl err \<Rightarrow> Inl err
      | Inr cosMargin \<Rightarrow>
          Inr \<lparr>fin_profit =
                 \<lparr>gross = \<lparr>vr_value = grossProfit, marginRatio = revenueMargin\<rparr>,
                  net = \<lparr>vr_value = grossProfit, marginRatio = revenueMargin\<rparr>\<rparr>,
               fin_revenue =
                 \<lparr>gross = \<lparr>vr_value = grossRevenue, marginRatio = 1\<rparr>,
                  net = \<lparr>vr_value = grossRevenue, marginRatio = 1\<rparr>\<rparr>,
               fin_income =
                 \<lparr>gross = \<lparr>vr_value = grossProfit, marginRatio = revenueMargin\<rparr>,
                  net = \<lparr>vr_value = grossProfit, marginRatio = revenueMargin\<rparr>\<rparr>,
               fin_cos =
                 \<lparr>gross = \<lparr>vr_value = grossCOS, marginRatio = cosMargin\<rparr>,
                  net = \<lparr>vr_value = grossCOS, marginRatio = cosMargin\<rparr>\<rparr>\<rparr>)))))"

definition recomputeFinance :: "MajikSubscription \<Rightarrow> unit result" where
  "recomputeFinance s =
     (if financeDirty s then
        (case financeSnapshot s of
           Inl err \<Rightarrow> (Inl err, s)
         | Inr snapshot \<Rightarrow>
             (Inr (), s\<lparr>metadata := (metadata s)\<lparr>md_finance := snapshot\<rparr>, financeDirty := False\<rparr>))
      else (Inr (), s))"

subsection \<open>Aggregate finance getters\<close>

definition financeGetter ::
  "(SubscriptionFinance \<Rightarrow> MajikMoney) \<Rightarrow> MajikSubscription \<Rightarrow> MajikMoney result" where
  "financeGetter field s =
     (case recomputeFinance s of
        (Inl err, s') \<Rightarrow> (Inl err, s')
      | (Inr u, s') \<Rightarrow> (Inr (field (md_finance (metadata s'))), s'))"

definition grossRevenue :: "MajikSubscription \<Rightarrow> MajikMoney result" where
  "grossRevenue s = financeGetter (\<lambda>f. vr_value (gross (fin_revenue f))) s"

definition grossCost :: "MajikSubscription \<Rightarrow> MajikMoney result" where
  "grossCost s = financeGetter (\<lambda>f. vr_value (gross (fin_cos f))) s"

definition grossProfit :: "MajikSubscription \<Rightarrow> MajikMoney result" where
  "grossProfit s = financeGetter (\<lambda>f. vr_value (gross (fin_profit f))) s"

definition netRevenue :: "MajikSubscription \<Rightarrow> MajikMoney result" where
  "netRevenue s = financeGetter (\<lambda>f. vr_value (net (fin_revenue f))) s"

definition netProfit :: "MajikSubscription \<Rightarrow> MajikMoney result" where
  "netProfit s = financeGetter (\<lambda>f. vr_value (net (fin_profit f))) s"

subsection \<open>Monthly finance\<close>

definition getRevenue :: "YYYYMM \<Rightarrow> MajikSubscription \<Rightarrow> error + MajikMoney" where
  "getRevenue m s =
     (if isValidYYYYMM m then
        (case find (\<lambda>c. month c = m) (planOrEmpty s) of
           None \<Rightarrow> Inr (DEFAULT_ZERO s)
         | Some plan \<Rightarrow>
             Inr (money_multiply (amount (rate s))
                    (capacity plan + (case adjustment plan of None \<Rightarrow> 0 | Some a \<Rightarrow> a))))
      else Inl InvalidMonth)"

definition getCOS :: "YYYYMM \<Rightarrow> MajikSubscription \<Rightarrow> error + MajikMoney" where
  "getCOS m s =
     (if isValidYYYYMM m then
        (case find (\<lambda>c. month c = m) (planOrEmpty s) of
           None \<Rightarrow> Inr (DEFAULT_ZERO s)
         | Some plan \<Rightarrow>
             (case reduce_add (DEFAULT_ZERO s) (map subtotal (md_cos (metadata s))) of
                Inl err \<Rightarrow> Inl err
              | Inr perUnitCOS \<Rightarrow>
                  Inr (money_multiply perUnitCOS
                         (capacity plan + (case adjustment plan of None \<Rightarrow> 0 | Some a \<Rightarrow> a)))))
      else Inl InvalidMonth)"

definition getProfit :: "YYYYMM \<Rightarrow> MajikSubscription \<Rightarrow> error + MajikMoney" where
  "getProfit m s =
     (if isValidYYYYMM m then
        (case getRevenue m s of
           Inl err \<Rightarrow> Inl err
         | Inr revenue \<Rightarrow>
             (case getCOS m s of
                Inl err \<Rightarrow> Inl err
              | Inr cosAmount \<Rightarrow> money_subtract revenue cosAmount))
      else Inl InvalidMonth)"

text \<open>
  \<^verbatim>\<open>getMargin\<close>: the quotient of the profit by the revenue, taken by the money library
  (\<^verbatim>\<open>divideDecimal\<close> by \<^verbatim>\<open>toMajorDecimal\<close>, then \<^verbatim>\<open>toNumber\<close>); modelled from the
  spec as the exact ratio of the two amounts.
\<close>

definition getMargin :: "YYYYMM \<Rightarrow> MajikSubscription \<Rightarrow> error + rat" where
  "getMargin m s =
     (if isValidYYYYMM m then
        (case getRevenue m s of
           Inl err \<Rightarrow> Inl err
         | Inr revenue \<Rightarrow>
             if money_isZero revenue then Inr 0
             else (case getProfit m s of
                     Inl err \<Rightarrow> Inl err
                   | Inr profit \<Rightarrow> Inr (of_int (minor profit) / of_int (minor revenue))))
      else Inl InvalidMonth)"

text \<open>\<^verbatim>\<open>if (x) net = net.subtract(x)\<close> for an optional deduction.\<close>

definition subtractOptional :: "error + MajikMoney \<Rightarrow> MajikMoney option \<Rightarrow> error + MajikMoney" where
  "subtractOptional acc x =
     (case acc of
        Inl err \<Rightarrow> Inl err
      | Inr a \<Rightarrow> (case x of None \<Rightarrow> Inr a | Some d \<Rightarrow> money_subtract a d))"

definition getNetRevenue ::
  "YYYYMM \<Rightarrow> MajikMoney option \<Rightarrow> MajikMoney option \<Rightarrow> MajikMoney option \<Rightarrow> MajikSubscription
     \<Rightarrow> error + MajikMoney" where
  "getNetRevenue m discounts returns allowances s =
     (if isValidYYYYMM m then
        subtractOptional (subtractOptional (subtractOptional (getRevenue m s) discounts) returns) allowances
      else Inl InvalidMonth)"

definition getNetProfit ::
  "YYYYMM \<Rightarrow> MajikMoney option \<Rightarrow> MajikMoney option \<Rightarrow> MajikMoney option \<Rightarrow> MajikMoney option
     \<Rightarrow> MajikMoney option \<Rightarrow> MajikSubscription \<Rightarrow> error + MajikMoney" where
  "getNetProfit m operatingExpenses taxes discounts returns allowances s =
     (if isValidYYYYMM m then
        subtractOptional
          (subtractOptional (getNetRevenue m discounts returns allowances s) operatingExpenses) taxes
      else Inl InvalidMonth)"

definition getNetIncome ::
  "YYYYMM \<Rightarrow> MajikMoney option \<Rightarrow> MajikMoney option \<Rightarrow> MajikMoney option \<Rightarrow> MajikMoney option
     \<Rightarrow> MajikMoney option \<Rightarrow> MajikSubscription \<Rightarrow> error + MajikMoney" where
  "getNetIncome m operatingExpenses taxes discounts returns allowances s =
     (if isValidYYYYMM m then getNetProfit m operatingExpenses taxes discounts returns allowances s
      else Inl InvalidMonth)"

subsection \<open>Trials\<close>

text \<open>
  \<^verbatim>\<open>applyTrial\<close>. The sort is stable; \<^verbatim>\<open>localeCompare\<close> is modelled by the order of the
  code units, which is the order of the months on well-formed keys. The loop runs over the
  first \<open>months\<close> entries of the sorted plan.
\<close>

fun trialLoop :: "int \<Rightarrow> int \<Rightarrow> MonthlyCapacity list \<Rightarrow> MonthlyCapacity list" where
  "trialLoop months i [] = []"
| "trialLoop months i (c # cs) =
     (if i < months then
        c\<lparr>adjustment := Some ((case adjustment c of None \<Rightarrow> 0 | Some a \<Rightarrow> a) - capacity c)\<rparr>
          # trialLoop months (i + 1) cs
      else c # cs)"

definition applyTrial :: "env \<Rightarrow> int \<Rightarrow> MajikSubscription \<Rightarrow> unit result" where
  "applyTrial e months s =
     (if months \<le> 0 then (Inl InvalidArgument, s)
      else (case md_capacityPlan (metadata s) of
              None \<Rightarrow> (Inr (), s)
            | Some plan \<Rightarrow>
                (Inr (), markFinanceDirty (updateTimestamp e
                   (set_capacityPlan (Some (trialLoop months 0 (sort_key month plan))) s)))))"

subsection \<open>Serialization\<close>

text \<open>
  The plain object \<open>preJSON\<close> of \<^verbatim>\<open>toJSON\<close>, which is also what \<^verbatim>\<open>parseFromJSON\<close>
  reads after \<^verbatim>\<open>deserializeMoney\<close>. The fields that \<^verbatim>\<open>parseFromJSON\<close> tests or
  defaults are optional: an input may lack them.
\<close>

record SubscriptionJSON =
  json_type :: string
  json_object :: string
  json_id :: "string option"
  json_slug :: "string option"
  json_name :: string
  json_category :: string
  json_rate :: SubscriptionRate
  json_status :: SubscriptionStatus
  json_subtype :: SubscriptionType
  json_timestamp :: "string option"
  json_last_update :: "string option"
  json_metadata :: "SubscriptionMetadata option"
  json_settings :: "SubscriptionSettings option"

text \<open>
  Modelled from the spec: \<^verbatim>\<open>serializeMoney\<close> and \<^verbatim>\<open>deserializeMoney\<close> are functions of
  the money library, which is not part of the repository. They walk the object and turn
  every monetary value into a currency-tagged amount in minor units, and back; every other
  field is copied. The records below are the object after \<^verbatim>\<open>serializeMoney\<close>, field by
  field.
\<close>

record SerializedMoney =
  wire_amount :: int
  wire_currency :: string

record COSItemWire =
  w_cos_id :: string
  w_item :: string
  w_unitCost :: SerializedMoney
  w_quantity :: int
  w_subtotal :: SerializedMoney
  w_cos_unit :: "string option"

record ValueRatioWire =
  w_value :: SerializedMoney
  w_marginRatio :: rat

record GrossNetWire =
  w_gross :: ValueRatioWire
  w_net :: ValueRatioWire

record SubscriptionFinanceWire =
  w_profit :: GrossNetWire
  w_revenue :: GrossNetWire
  w_income :: GrossNetWire
  w_cos :: GrossNetWire

record SubscriptionRateWire =
  w_amount :: SerializedMoney
  w_rate_unit :: RateUnit
  w_billingCycle :: BillingCycle

record SubscriptionMetadataWire =
  w_md_sku :: "string option"
  w_md_description :: Description
  w_md_photos :: "string list option"
  w_md_type :: SubscriptionType
  w_md_category :: string
  w_md_rate :: SubscriptionRateWire
  w_md_cos :: "COSItemWire list"
  w_md_capacityPlan :: "MonthlyCapacity list option"
  w_md_finance :: SubscriptionFinanceWire

record SubscriptionWire =
  w_type :: string
  w_object :: string
  w_id :: "string option"
  w_slug :: "string option"
  w_name :: string
  w_category :: string
  w_rate :: SubscriptionRateWire
  w_status :: SubscriptionStatus
  w_subtype :: SubscriptionType
  w_timestamp :: "string option"
  w_last_update :: "string option"
  w_metadata :: "SubscriptionMetadataWire option"
  w_settings :: "SubscriptionSettings option"

definition serializeOneMoney :: "MajikMoney \<Rightarrow> SerializedMoney" where
  "serializeOneMoney m = \<lparr>wire_amount = minor m, wire_currency = currency m\<rparr>"

definition deserializeOneMoney :: "SerializedMoney \<Rightarrow> MajikMoney" where
  "deserializeOneMoney w = \<lparr>minor = wire_amount w, currency = wire_currency w\<rparr>"

definition serializeCOSItem :: "COSItem \<Rightarrow> COSItemWire" where
  "serializeCOSItem c =
     \<lparr>w_cos_id = cos_id c, w_item = item c, w_unitCost = serializeOneMoney (unitCost c),
      w_quantity = quantity c, w_subtotal = serializeOneMoney (subtotal c), w_cos_unit = cos_unit c\<rparr>"

definition deserializeCOSItem :: "COSItemWire \<Rightarrow> COSItem" where
  "deserializeCOSItem c =
     \<lparr>cos_id = w_cos_id c, item = w_item c, unitCost = deserializeOneMoney (w_unitCost c),
      quantity = w_quantity c, subtotal = deserializeOneMoney (w_subtotal c), cos_unit = w_cos_unit c\<rparr>"

definition serializeValueRatio :: "ValueRatio \<Rightarrow> ValueRatioWire" where
  "serializeValueRatio v = \<lparr>w_value = serializeOneMoney (vr_value v), w_marginRatio = marginRatio v\<rparr>"

definition deserializeValueRatio :: "ValueRatioWire \<Rightarrow> ValueRatio" where
  "deserializeValueRatio v = \<lparr>vr_value = deserializeOneMoney (w_value v), marginRatio = w_marginRatio v\<rparr>"

definition serializeGrossNet :: "GrossNet \<Rightarrow> GrossNetWire" where
  "serializeGrossNet g = \<lparr>w_gross = serializeValueRatio (gross g), w_net = serializeValueRatio (net g)\<rparr>"

definition deserializeGrossNet :: "GrossNetWire \<Rightarrow> GrossNet" where
  "deserializeGrossNet g = \<lparr>gross = deserializeValueRatio (w_gross g), net = deserializeValueRatio (w_net g)\<rparr>"

definition serializeFinance :: "SubscriptionFinance \<Rightarrow> SubscriptionFinanceWire" where
  "serializeFinance f =
     \<lparr>w_profit = serializeGrossNet (fin_profit f), w_revenue = serializeGrossNet (fin_revenue f),
      w_income = serializeGrossNet (fin_income f), w_cos = serializeGrossNet (fin_cos f)\<rparr>"

definition deserializeFinance :: "SubscriptionFinanceWire \<Rightarrow> SubscriptionFinance" where
  "deserializeFinance f =
     \<lparr>fin_profit = deserializeGrossNet (w_profit f), fin_revenue = deserializeGrossNet (w_revenue f),
      fin_income = deserializeGrossNet (w_income f), fin_cos = deserializeGrossNet (w_cos f)\<rparr>"

definition serializeRate :: "SubscriptionRate \<Rightarrow> SubscriptionRateWire" where
  "serializeRate r =
     \<lparr>w_amount = serializeOneMoney (amount r), w_rate_unit = rate_unit r, w_billingCycle = billingCycle r\<rparr>"

definition deserializeRate :: "SubscriptionRateWire \<Rightarrow> SubscriptionRate" where
  "deserializeRate r =
     \<lparr>amount = deserializeOneMoney (w_amount r), rate_unit = w_rate_unit r, billingCycle = w_billingCycle r\<rparr>"

definition serializeMetadata :: "SubscriptionMetadata \<Rightarrow> SubscriptionMetadataWire" where
  "serializeMetadata md =
     \<lparr>w_md_sku = md_sku md, w_md_description = md_description md, w_md_photos = md_photos md,
      w_md_type = md_type md, w_md_category = md_category md, w_md_rate = serializeRate (md_rate md),
      w_md_cos = map serializeCOSItem (md_cos md), w_md_capacityPlan = md_capacityPlan md,
      w_md_finance = serializeFinance (md_finance md)\<rparr>"

definition deserializeMetadata :: "SubscriptionMetadataWire \<Rightarrow> SubscriptionMetadata" where
  "deserializeMetadata md =
     \<lparr>md_sku = w_md_sku md, md_description = w_md_description md, md_photos = w_md_photos md,
      md_type = w_md_type md, md_category = w_md_category md, md_rate = deserializeRate (w_md_rate md),
      md_cos = map deserializeCOSItem (w_md_cos md), md_capacityPlan = w_md_capacityPlan md,
      md_finance = deserializeFinance (w_md_finance md)\<rparr>"

definition serializeMoney :: "SubscriptionJSON \<Rightarrow> SubscriptionWire" where
  "serializeMoney p =
     \<lparr>w_type = json_type p, w_object = json_object p, w_id = json_id p, w_slug = json_slug p,
      w_name = json_name p, w_category = json_category p, w_rate = serializeRate (json_rate p),
      w_status = json_status p, w_subtype = json_subtype p, w_timestamp = json_timestamp p,
      w_last_update = json_last_update p,
      w_metadata = map_option serializeMetadata (json_metadata p),
      w_settings = json_settings p\<rparr>"

definition deserializeMoney :: "SubscriptionWire \<Rightarrow> SubscriptionJSON" where
  "deserializeMoney w =
     \<lparr>json_type = w_type w, json_object = w_object w, json_id = w_id w, json_slug = w_slug w,
      json_name = w_name w, json_category = w_category w, json_rate = deserializeRate (w_rate w),
      json_status = w_status w, json_subtype = w_subtype w, json_timestamp = w_timestamp w,
      json_last_update = w_last_update w,
      json_metadata = map_option deserializeMetadata (w_metadata w),
      json_settings = w_settings w\<rparr>"

definition preJSON :: "MajikSubscription \<Rightarrow> SubscriptionJSON" where
  "preJSON s =
     \<lparr>json_type = ''MajikSubscription'',
      json_object = ''json'',
      json_id = Some (sub_id s),
      json_slug = Some (slug s),
      json_name = sub_name s,
      json_category = category s,
      json_rate = rate s,
      json_status = status s,
      json_subtype = sub_type s,
      json_timestamp = Some (timestamp s),
      json_last_update = Some (last_update s),
      json_metadata = Some (metadata s),
      json_settings = Some (settings s)\<rparr>"

definition toJSON :: "MajikSubscription \<Rightarrow> SubscriptionWire" where
  "toJSON s = serializeMoney (preJSON s)"

text \<open>
  \<^verbatim>\<open>parseFromJSON\<close>. The argument is the object that \<^verbatim>\<open>JSON.parse\<close> reads from a string
  or that \<^verbatim>\<open>structuredClone\<close> copies.
\<close>

definition parseFromJSON :: "env \<Rightarrow> SubscriptionWire \<Rightarrow> error + MajikSubscription" where
  "parseFromJSON e json =
     (let parsedData = deserializeMoney json in
      if orElse (json_id parsedData) [] = [] then Inl MissingField
      else if orElse (json_timestamp parsedData) [] = [] then Inl MissingField
      else (case json_metadata parsedData of
              None \<Rightarrow> Inl MissingField
            | Some md \<Rightarrow>
                (case json_settings parsedData of
                   None \<Rightarrow> Inl MissingField
                 | Some sett \<Rightarrow>
                     Inr (new_MajikSubscription e (json_id parsedData) (json_slug parsedData)
                            (json_name parsedData) md (Some sett)
                            (json_timestamp parsedData) (json_last_update parsedData)))))"

section \<open>The properties, in the words of the specification\<close>





definition financeCoherent :: "MajikSubscription \<Rightarrow> bool" where
  "financeCoherent s =
     (if financeDirty s then True else financeSnapshot s = Inr (md_finance (metadata s)))"

text \<open>At most one entry per month.\<close>

definition distinctMonths :: "MajikSubscription \<Rightarrow> bool" where
  "distinctMonths s = distinct (map month (planOrEmpty s))"

text \<open>
  The public interface: the calls that can change the object, with their arguments.
  \<open>perform e c s\<close> is the state the call \<open>c\<close> leaves the object \<open>s\<close> in, whether it
  returned or threw. The five cached getters are the only reading calls that write (the
  snapshot and the flag); \<^verbatim>\<open>averageMonthlyRevenue\<close> and \<^verbatim>\<open>averageMonthlyProfit\<close>
  change the object through \<^verbatim>\<open>grossRevenue\<close> and \<^verbatim>\<open>grossProfit\<close> only. Every other
  method of the class leaves the object as it is.
\<close>

datatype operation =
    SetName string
  | SetRate SubscriptionRate
  | SetRateUnit RateUnit
  | SetRateAmount rat
  | SetCategory string
  | SetDescription string string
  | SetDescriptionText string
  | SetDescriptionHTML string
  | SetDescriptionSEO string
  | SetType SubscriptionType
  | AddCOS string MajikMoney int "string option"
  | PushCOS COSItem
  | UpdateCOS string COSUpdates
  | SetCOS "COSItem list"
  | RemoveCOS string
  | ClearCostBreakdown
  | SetCapacity "MonthlyCapacity list"
  | GenerateCapacityPlan int rat rat "StartDateInput option"
  | NormalizeCapacityUnits int
  | RecomputeCapacityPeriod YYYYMM YYYYMM CapacityPeriodResizeMode
  | AddCapacity YYYYMM int "int option"
  | UpdateCapacityUnits YYYYMM int
  | UpdateCapacityAdjustment YYYYMM "int option"
  | RemoveCapacity YYYYMM
  | ClearCapacity
  | ApplyTrial int
  | GrossRevenue
  | GrossCost
  | GrossProfit
  | NetRevenue
  | NetProfit

fun perform :: "env \<Rightarrow> operation \<Rightarrow> MajikSubscription \<Rightarrow> MajikSubscription" where
  "perform e (SetName nm) s = snd (setName e nm s)"
| "perform e (SetRate rt) s = snd (setRate e rt s)"
| "perform e (SetRateUnit u) s = snd (setRateUnit e u s)"
| "perform e (SetRateAmount amt) s = snd (setRateAmount e amt s)"
| "perform e (SetCategory cat) s = snd (setCategory e cat s)"
| "perform e (SetDescription html txt) s = snd (setDescription e html txt s)"
| "perform e (SetDescriptionText txt) s = snd (setDescriptionText e txt s)"
| "perform e (SetDescriptionHTML html) s = snd (setDescriptionHTML e html s)"
| "perform e (SetDescriptionSEO txt) s = snd (setDescriptionSEO e txt s)"
| "perform e (SetType ty) s = snd (setType e ty s)"
| "perform e (AddCOS nm cost q u) s = snd (addCOS e nm cost q u s)"
| "perform e (PushCOS it) s = snd (pushCOS e it s)"
| "perform e (UpdateCOS ident updates) s = snd (updateCOS e ident updates s)"
| "perform e (SetCOS items) s = snd (setCOS e items s)"
| "perform e (RemoveCOS ident) s = snd (removeCOS e ident s)"
| "perform e ClearCostBreakdown s = snd (clearCostBreakdown e s)"
| "perform e (SetCapacity capacityPlan) s = snd (setCapacity e capacityPlan s)"
| "perform e (GenerateCapacityPlan months amt growthRate startDate) s =
     snd (generateCapacityPlan e months amt growthRate startDate s)"
| "perform e (NormalizeCapacityUnits amt) s = snd (normalizeCapacityUnits e amt s)"
| "perform e (RecomputeCapacityPeriod start end_month mode) s =
     snd (recomputeCapacityPeriod e start end_month mode s)"
| "perform e (AddCapacity m units adj) s = snd (addCapacity e m units adj s)"
| "perform e (UpdateCapacityUnits m units) s = snd (updateCapacityUnits e m units s)"
| "perform e (UpdateCapacityAdjustment m adj) s = snd (updateCapacityAdjustment e m adj s)"
| "perform e (RemoveCapacity m) s = snd (removeCapacity e m s)"
| "perform e ClearCapacity s = snd (clearCapacity e s)"
| "perform e (ApplyTrial months) s = snd (applyTrial e months s)"
| "perform e GrossRevenue s = snd (grossRevenue s)"
| "perform e GrossCost s = snd (grossCost s)"
| "perform e GrossProfit s = snd (grossProfit s)"
| "perform e NetRevenue s = snd (netRevenue s)"
| "perform e NetProfit s = snd (netProfit s)"

text \<open>
  A subscription is an object that the constructor built (directly, or through
  \<^verbatim>\<open>initialize\<close> or \<^verbatim>\<open>parseFromJSON\<close>) and that a sequence of calls, each with the
  surroundings of its moment, has changed since: \<open>subscriptionAfter calls s\<close> is \<open>s\<close>
  after the calls, first to last.
\<close>

definition subscriptionAfter :: "(env \<times> operation) list \<Rightarrow> MajikSubscription \<Rightarrow> MajikSubscription" where
  "subscriptionAfter calls s = foldl (\<lambda>t (e, c). perform e c t) s calls"

text \<open>
  What every subscription satisfies: the identifier and the slug are not empty, the field
  \<open>rate\<close> is the rate of the metadata (in the source they are one object), and the cache
  is coherent.
\<close>

definition classInvariant :: "MajikSubscription \<Rightarrow> bool" where
  "classInvariant s =
     (sub_id s \<noteq> [] \<and> slug s \<noteq> [] \<and> rate s = md_rate (metadata s) \<and> financeCoherent s)"

text \<open>The calls of a sequence that replace the plan by an array do so with distinct months.\<close>

definition replacesWithDistinctMonths :: "operation \<Rightarrow> bool" where
  "replacesWithDistinctMonths c =
     (case c of SetCapacity capacityPlan \<Rightarrow> distinct (map month capacityPlan) | _ \<Rightarrow> True)"

section \<open>Example states\<close>

text \<open>
  A subscription at 29.00 PHP per user and month, as \<^verbatim>\<open>initialize\<close> returns it, and
  states reached from it through the public methods.
\<close>

definition exampleEnv :: env where
  "exampleEnv =
     \<lparr>nowISO = ''2026-01-15T08:00:00.000Z'', nowMonth = 12 * 2026 + 0, tzOffset = 0,
      nanoid8 = ''G7K2aZp9'', nanoid6 = ''X4tF9z'', parseDate = (\<lambda>s. None),
      minorUnits = (\<lambda>a c. \<lfloor>a * 100 + 1 / 2\<rfloor>)\<rparr>"

text \<open>The same surroundings five hours west of Greenwich.\<close>

definition exampleEnvWest :: env where
  "exampleEnvWest = exampleEnv\<lparr>tzOffset := - 300\<rparr>"

definition exampleRate :: SubscriptionRate where
  "exampleRate = \<lparr>amount = fromMinor 2900 ''PHP'', rate_unit = PER_USER, billingCycle = MONTHLY\<rparr>"

definition exampleMetadata :: SubscriptionMetadata where
  "exampleMetadata =
     \<lparr>md_sku = None,
      md_description = \<lparr>desc_text = ''A new subscription.'', desc_html = None, desc_seo = None\<rparr>,
      md_photos = None, md_type = RECURRING, md_category = ''Other'', md_rate = exampleRate,
      md_cos = [], md_capacityPlan = None,
      md_finance = createEmptySubscriptionFinance ''PHP''\<rparr>"

definition exampleInitial :: MajikSubscription where
  "exampleInitial =
     \<lparr>sub_id = ''mjksub-G7K2aZp9'', slug = ''pro-plan-X4tF9z'', sub_name = ''Pro Plan'',
      category = ''Other'', rate = exampleRate, status = ACTIVE, sub_type = RECURRING,
      timestamp = ''2026-01-15T08:00:00.000Z'', last_update = ''2026-01-15T08:00:00.000Z'',
      metadata = exampleMetadata, settings = defaultSettings, financeDirty = True\<rparr>"

text \<open>One COS item of 300.00 PHP per unit.\<close>

definition exampleWithCOS :: MajikSubscription where
  "exampleWithCOS =
     snd (addCOS exampleEnv ''Cloud Hosting'' (fromMinor 30000 ''PHP'') 1 (Some ''per user'') exampleInitial)"

text \<open>An update of that item: a new quantity, and a unit cost in another currency.\<close>

definition exampleUpdates :: COSUpdates where
  "exampleUpdates =
     \<lparr>upd_quantity = Some 2, upd_unitCost = Some (fromMinor 500 ''USD''), upd_unit = None, upd_item = None\<rparr>"

text \<open>Two months of capacity, added in the order February, January.\<close>

definition exampleUnsorted :: MajikSubscription where
  "exampleUnsorted =
     snd (addCapacity exampleEnv ''2025-01'' 10 None
       (snd (addCapacity exampleEnv ''2025-02'' 20 None exampleWithCOS)))"

text \<open>One month with one unit and an adjustment of -2.\<close>

definition exampleNegative :: MajikSubscription where
  "exampleNegative = snd (addCapacity exampleEnv ''2025-01'' 1 (Some (- 2)) exampleInitial)"

text \<open>The rate changed to 29.00 USD by \<^verbatim>\<open>setRate\<close>, with the COS item in PHP still there.\<close>

definition exampleRateUSD :: SubscriptionRate where
  "exampleRateUSD = \<lparr>amount = fromMinor 2900 ''USD'', rate_unit = PER_USER, billingCycle = MONTHLY\<rparr>"

definition exampleMixed :: MajikSubscription where
  "exampleMixed = snd (setRate exampleEnv exampleRateUSD exampleUnsorted)"

text \<open>A subscription constructed with the empty string as its timestamp.\<close>

definition exampleNoTimestamp :: MajikSubscription where
  "exampleNoTimestamp =
     new_MajikSubscription exampleEnv (Some ''mjksub-G7K2aZp9'') (Some ''pro-plan-X4tF9z'') ''Pro Plan''
       exampleMetadata (Some defaultSettings) (Some '''') (Some ''2026-01-15T08:00:00.000Z'')"

text \<open>An array with the same month twice.\<close>

definition exampleDuplicates :: "MonthlyCapacity list" where
  "exampleDuplicates =
     [\<lparr>month = ''2025-01'', capacity = 1, adjustment = None\<rparr>,
      \<lparr>month = ''2025-01'', capacity = 2, adjustment = None\<rparr>]"

section \<open>Selectors of the state after the private helpers\<close>

lemma set_cos_fields [simp]:
  "md_cos (metadata (set_cos xs s)) = xs"
  "md_capacityPlan (metadata (set_cos xs s)) = md_capacityPlan (metadata s)"
  "md_finance (metadata (set_cos xs s)) = md_finance (metadata s)"
  "rate (set_cos xs s) = rate s"
  "sub_id (set_cos xs s) = sub_id s"
  "slug (set_cos xs s) = slug s"
  "timestamp (set_cos xs s) = timestamp s"
  "md_rate (metadata (set_cos xs s)) = md_rate (metadata s)"
  "financeDirty (set_cos xs s) = financeDirty s"
  "last_update (set_cos xs s) = last_update s"
  "planOrEmpty (set_cos xs s) = planOrEmpty s"
  by (simp_all add: set_cos_def planOrEmpty_def)

lemma set_capacityPlan_fields [simp]:
  "md_capacityPlan (metadata (set_capacityPlan p s)) = p"
  "md_cos (metadata (set_capacityPlan p s)) = md_cos (metadata s)"
  "md_finance (metadata (set_capacityPlan p s)) = md_finance (metadata s)"
  "rate (set_capacityPlan p s) = rate s"
  "sub_id (set_capacityPlan p s) = sub_id s"
  "slug (set_capacityPlan p s) = slug s"
  "timestamp (set_capacityPlan p s) = timestamp s"
  "md_rate (metadata (set_capacityPlan p s)) = md_rate (metadata s)"
  "financeDirty (set_capacityPlan p s) = financeDirty s"
  "last_update (set_capacityPlan p s) = last_update s"
  "planOrEmpty (set_capacityPlan (Some xs) s) = xs"
  by (simp_all add: set_capacityPlan_def planOrEmpty_def)

lemma markFinanceDirty_fields [simp]:
  "metadata (markFinanceDirty s) = metadata s"
  "rate (markFinanceDirty s) = rate s"
  "sub_id (markFinanceDirty s) = sub_id s"
  "slug (markFinanceDirty s) = slug s"
  "timestamp (markFinanceDirty s) = timestamp s"
  "financeDirty (markFinanceDirty s)"
  "last_update (markFinanceDirty s) = last_update s"
  "planOrEmpty (markFinanceDirty s) = planOrEmpty s"
  by (simp_all add: markFinanceDirty_def planOrEmpty_def)

lemma updateTimestamp_fields [simp]:
  "metadata (updateTimestamp e s) = metadata s"
  "rate (updateTimestamp e s) = rate s"
  "sub_id (updateTimestamp e s) = sub_id s"
  "slug (updateTimestamp e s) = slug s"
  "timestamp (updateTimestamp e s) = timestamp s"
  "financeDirty (updateTimestamp e s) = financeDirty s"
  "last_update (updateTimestamp e s) = nowISO e"
  "planOrEmpty (updateTimestamp e s) = planOrEmpty s"
  by (simp_all add: updateTimestamp_def planOrEmpty_def)

lemma set_description_fields [simp]:
  "md_cos (metadata (set_description d s)) = md_cos (metadata s)"
  "md_capacityPlan (metadata (set_description d s)) = md_capacityPlan (metadata s)"
  "md_finance (metadata (set_description d s)) = md_finance (metadata s)"
  "md_rate (metadata (set_description d s)) = md_rate (metadata s)"
  "rate (set_description d s) = rate s"
  "sub_id (set_description d s) = sub_id s"
  "slug (set_description d s) = slug s"
  "timestamp (set_description d s) = timestamp s"
  "financeDirty (set_description d s) = financeDirty s"
  "planOrEmpty (set_description d s) = planOrEmpty s"
  by (simp_all add: set_description_def planOrEmpty_def)

section \<open>The example states\<close>

lemma initialize_example:
  "initialize exampleEnv ''Pro Plan'' RECURRING exampleRate ''Other'' None None = Inr exampleInitial"
  by (simp add: initialize_def new_MajikSubscription_def exampleInitial_def exampleMetadata_def
      exampleEnv_def exampleRate_def trim_def isWhiteSpace_def orElse_def autogenerateID_def
      generateSlug_def stripDashes_def toLowerChar_def isSlugChar_def isDigit_def fromMinor_def
      defaultSettings_def)

lemma exampleInitial_fields [simp]:
  "rate exampleInitial = exampleRate"
  "md_rate (metadata exampleInitial) = exampleRate"
  "sub_id exampleInitial = ''mjksub-G7K2aZp9''"
  "slug exampleInitial = ''pro-plan-X4tF9z''"
  "timestamp exampleInitial = ''2026-01-15T08:00:00.000Z''"
  "md_cos (metadata exampleInitial) = []"
  "md_capacityPlan (metadata exampleInitial) = None"
  "planOrEmpty exampleInitial = []"
  "financeDirty exampleInitial"
  by (simp_all add: exampleInitial_def exampleMetadata_def planOrEmpty_def)

lemma exampleWithCOS_fields [simp]:
  "md_cos (metadata exampleWithCOS) =
     [\<lparr>cos_id = ''mjksubcost-G7K2aZp9'', item = ''Cloud Hosting'', unitCost = fromMinor 30000 ''PHP'',
       quantity = 1, subtotal = fromMinor 30000 ''PHP'', cos_unit = Some ''per user''\<rparr>]"
  "rate exampleWithCOS = exampleRate"
  "md_rate (metadata exampleWithCOS) = exampleRate"
  "sub_id exampleWithCOS = ''mjksub-G7K2aZp9''"
  "slug exampleWithCOS = ''pro-plan-X4tF9z''"
  "timestamp exampleWithCOS = ''2026-01-15T08:00:00.000Z''"
  "planOrEmpty exampleWithCOS = []"
  "financeDirty exampleWithCOS"
  by (simp_all add: exampleWithCOS_def addCOS_def trim_def isWhiteSpace_def assertCurrency_def
      exampleRate_def fromMinor_def autogenerateID_def exampleEnv_def money_multiply_def)

lemma isValidYYYYMM_examples [simp]:
  "isValidYYYYMM ''2025-01''" "isValidYYYYMM ''2025-02''"
  by (simp_all add: isValidYYYYMM_def matchesFirstAlternative_def isDigit_def)

lemma addCapacity_new:
  assumes "isValidYYYYMM m" and "\<not> list_ex (\<lambda>c. month c = m) (planOrEmpty s)"
  shows "addCapacity e m units adj s =
     (Inr (), markFinanceDirty (updateTimestamp e
        (set_capacityPlan (Some (planOrEmpty s @ [\<lparr>month = m, capacity = units, adjustment = adj\<rparr>])) s)))"
  using assms by (simp add: addCapacity_def Let_def) (simp add: set_capacityPlan_def)

lemma exampleUnsorted_fields [simp]:
  "planOrEmpty exampleUnsorted =
     [\<lparr>month = ''2025-02'', capacity = 20, adjustment = None\<rparr>,
      \<lparr>month = ''2025-01'', capacity = 10, adjustment = None\<rparr>]"
  "md_cos (metadata exampleUnsorted) = md_cos (metadata exampleWithCOS)"
  "rate exampleUnsorted = exampleRate"
  "md_rate (metadata exampleUnsorted) = exampleRate"
  "sub_id exampleUnsorted = ''mjksub-G7K2aZp9''"
  "slug exampleUnsorted = ''pro-plan-X4tF9z''"
  "timestamp exampleUnsorted = ''2026-01-15T08:00:00.000Z''"
  "financeDirty exampleUnsorted"
  by (simp_all add: exampleUnsorted_def addCapacity_new)

lemma exampleNegative_fields [simp]:
  "planOrEmpty exampleNegative = [\<lparr>month = ''2025-01'', capacity = 1, adjustment = Some (- 2)\<rparr>]"
  "rate exampleNegative = exampleRate"
  by (simp_all add: exampleNegative_def addCapacity_new)

lemma exampleInitial_constructed:
  "exampleInitial =
     new_MajikSubscription exampleEnv None None ''Pro Plan'' exampleMetadata (Some defaultSettings) None None"
  by (simp add: new_MajikSubscription_def exampleInitial_def exampleMetadata_def
      exampleEnv_def exampleRate_def orElse_def autogenerateID_def
      generateSlug_def stripDashes_def toLowerChar_def isSlugChar_def isDigit_def fromMinor_def
      defaultSettings_def)

lemma exampleUnsorted_history:
  "exampleUnsorted =
     subscriptionAfter
       [(exampleEnv, AddCOS ''Cloud Hosting'' (fromMinor 30000 ''PHP'') 1 (Some ''per user'')),
        (exampleEnv, AddCapacity ''2025-02'' 20 None),
        (exampleEnv, AddCapacity ''2025-01'' 10 None)]
       (new_MajikSubscription exampleEnv None None ''Pro Plan'' exampleMetadata (Some defaultSettings) None None)"
  by (simp add: subscriptionAfter_def exampleUnsorted_def exampleWithCOS_def
      flip: exampleInitial_constructed)

lemma exampleMixed_fields [simp]:
  "planOrEmpty exampleMixed = planOrEmpty exampleUnsorted"
  "md_cos (metadata exampleMixed) = md_cos (metadata exampleUnsorted)"
  "rate exampleMixed = exampleRateUSD"
  "financeDirty exampleMixed"
  by (simp_all add: exampleMixed_def setRate_def planOrEmpty_def)



section \<open>Month keys\<close>

lemma wellFormed_isValid: "wellFormedYYYYMM m \<Longrightarrow> isValidYYYYMM m"
  by (auto simp: wellFormedYYYYMM_def isValidYYYYMM_def matchesFirstAlternative_def
      matchesSecondAlternative_def)

text \<open>
  Claim C3: \<^verbatim>\<open>isValidYYYYMM(m)\<close> is true exactly when \<open>m\<close> is a 4-digit year, a hyphen
  and a 2-digit month from 01 to 12 and nothing else, so that the monthly accessors throw
  for every other key. The code accepts more: the two alternatives of its regular
  expression are anchored on one side each, so \<^verbatim>\<open>"12"\<close> and \<^verbatim>\<open>"2025-019"\<close> pass, and
  \<^verbatim>\<open>getRevenue("12")\<close> returns zero money instead of throwing.
\<close>

theorem isValidYYYYMM_accepts_malformed:
  "isValidYYYYMM ''12'' \<and> \<not> wellFormedYYYYMM ''12''
   \<and> isValidYYYYMM ''2025-019'' \<and> \<not> wellFormedYYYYMM ''2025-019''
   \<and> getRevenue ''12'' exampleUnsorted = Inr (fromMinor 0 ''PHP'')"
  by (simp add: isValidYYYYMM_def matchesFirstAlternative_def matchesSecondAlternative_def
      wellFormedYYYYMM_def isDigit_def getRevenue_def DEFAULT_ZERO_def orElse_def exampleRate_def
      fromMinor_def)

section \<open>COS\<close>

text \<open>
  Claim C5: a mutator that throws leaves the whole state as it was; in particular
  \<^verbatim>\<open>updateCOS\<close> with a valid quantity and a unit cost in another currency leaves the
  quantity of the item as it was. The code writes the quantity before it checks the
  currency: the call below throws the currency mismatch, and the quantity of the item has
  changed from 1 to 2 (while its subtotal has not been recomputed).
\<close>

theorem updateCOS_partial_mutation:
  "fst (updateCOS exampleEnv ''mjksubcost-G7K2aZp9'' exampleUpdates exampleWithCOS) = Inl CurrencyMismatch
   \<and> map quantity (md_cos (metadata exampleWithCOS)) = [1]
   \<and> map quantity (md_cos (metadata (snd (updateCOS exampleEnv ''mjksubcost-G7K2aZp9'' exampleUpdates exampleWithCOS)))) = [2]
   \<and> map subtotal (md_cos (metadata (snd (updateCOS exampleEnv ''mjksubcost-G7K2aZp9'' exampleUpdates exampleWithCOS))))
       = [fromMinor 30000 ''PHP'']
   \<and> snd (updateCOS exampleEnv ''mjksubcost-G7K2aZp9'' exampleUpdates exampleWithCOS) \<noteq> exampleWithCOS"
proof -
  have r: "updateCOS exampleEnv ''mjksubcost-G7K2aZp9'' exampleUpdates exampleWithCOS =
      (Inl CurrencyMismatch,
       set_cos [\<lparr>cos_id = ''mjksubcost-G7K2aZp9'', item = ''Cloud Hosting'',
                 unitCost = fromMinor 30000 ''PHP'', quantity = 2,
                 subtotal = fromMinor 30000 ''PHP'', cos_unit = Some ''per user''\<rparr>] exampleWithCOS)"
    by (simp add: updateCOS_def exampleUpdates_def assertCurrency_def exampleRate_def fromMinor_def)
  have "md_cos (metadata (snd (updateCOS exampleEnv ''mjksubcost-G7K2aZp9'' exampleUpdates exampleWithCOS)))
      \<noteq> md_cos (metadata exampleWithCOS)"
    by (simp add: r)
  then have "snd (updateCOS exampleEnv ''mjksubcost-G7K2aZp9'' exampleUpdates exampleWithCOS) \<noteq> exampleWithCOS"
    by metis
  then show ?thesis by (simp add: r)
qed

section \<open>Trials\<close>

text \<open>
  Claim C10: for a positive number of months, \<^verbatim>\<open>applyTrial\<close> on a subscription whose
  capacity plan was never set (it is undefined, as after \<^verbatim>\<open>initialize\<close>) throws nothing
  and leaves the whole state unchanged (no entry, no timestamp, no dirty flag); it throws
  only when the number of months is not positive.
\<close>

theorem applyTrial_undefined_plan:
  "(0 < months \<longrightarrow> md_capacityPlan (metadata s) = None \<longrightarrow> applyTrial e months s = (Inr (), s))
   \<and> (initialize e nm ty rt cat descriptionText skuID = Inr s0 \<longrightarrow> md_capacityPlan (metadata s0) = None)
   \<and> ((\<exists>err. fst (applyTrial e months s) = Inl err) = (months \<le> 0))"
  by (auto simp: applyTrial_def initialize_def new_MajikSubscription_def split: if_splits option.splits)

theorem applyTrial_undefined_plan_witness:
  "applyTrial exampleEnv 3 exampleInitial = (Inr (), exampleInitial)
   \<and> md_capacityPlan (metadata exampleInitial) = None"
  using applyTrial_undefined_plan [where months = 3 and s = exampleInitial and e = exampleEnv
      and nm = "''Pro Plan''" and ty = RECURRING and rt = exampleRate and cat = "''Other''"
      and descriptionText = None and skuID = None and ?s0.0 = exampleInitial]
    initialize_example
  by simp

section \<open>The finance cache\<close>

lemma recomputeFinance_clean: "\<not> financeDirty s \<Longrightarrow> recomputeFinance s = (Inr (), s)"
  by (simp add: recomputeFinance_def)

lemma recomputeFinance_cases:
  assumes "recomputeFinance s = (r, s')"
  shows "s' = s \<or> (r = Inr () \<and> \<not> financeDirty s')"
proof (cases "financeDirty s")
  case False
  with assms show ?thesis by (simp add: recomputeFinance_def)
next
  case True
  show ?thesis
  proof (cases "financeSnapshot s")
    case (Inl err)
    with True assms show ?thesis by (simp add: recomputeFinance_def)
  next
    case (Inr snapshot)
    with True assms show ?thesis by (auto simp add: recomputeFinance_def)
  qed
qed

lemma recomputeFinance_twice:
  assumes "recomputeFinance s = (r, s')"
  shows "recomputeFinance s' = (r, s')"
  using recomputeFinance_cases [OF assms] assms recomputeFinance_clean [of s'] by auto

lemma financeGetter_twice:
  assumes "financeGetter field s = (v, s')"
  shows "financeGetter field s' = (v, s')"
proof -
  obtain r t where rt: "recomputeFinance s = (r, t)" by (cases "recomputeFinance s")
  from assms rt have t: "t = s'" by (cases r) (simp_all add: financeGetter_def)
  from recomputeFinance_twice [OF rt] t have "recomputeFinance s' = (r, s')" by simp
  with assms rt t show ?thesis by (cases r) (simp_all add: financeGetter_def)
qed

lemma financeSnapshot_depends:
  assumes "rate s = rate t" and "md_cos (metadata s) = md_cos (metadata t)"
    and "md_capacityPlan (metadata s) = md_capacityPlan (metadata t)"
  shows "financeSnapshot s = financeSnapshot t"
proof -
  have z: "DEFAULT_ZERO s = DEFAULT_ZERO t" and p: "planOrEmpty s = planOrEmpty t"
    using assms by (simp_all add: DEFAULT_ZERO_def planOrEmpty_def)
  have r: "computeGrossRevenue s = computeGrossRevenue t"
    unfolding computeGrossRevenue_def z p assms ..
  have c: "computeGrossCOS s = computeGrossCOS t"
    unfolding computeGrossCOS_def z p assms ..
  have g: "computeGrossProfit s = computeGrossProfit t"
    unfolding computeGrossProfit_def r c ..
  show ?thesis
    unfolding financeSnapshot_def r c g ..
qed

lemma recomputeFinance_forced_again:
  assumes "financeDirty s" and "recomputeFinance s = (Inr (), s')"
  shows "recomputeFinance (markFinanceDirty s') = (Inr (), s')"
proof (cases "financeSnapshot s")
  case (Inl err)
  with assms show ?thesis by (simp add: recomputeFinance_def)
next
  case (Inr snapshot)
  with assms have s': "s' = s\<lparr>metadata := (metadata s)\<lparr>md_finance := snapshot\<rparr>, financeDirty := False\<rparr>"
    by (simp add: recomputeFinance_def)
  have "financeSnapshot (markFinanceDirty s') = financeSnapshot s"
    by (rule financeSnapshot_depends) (simp_all add: s' markFinanceDirty_def)
  with Inr show ?thesis
    by (simp add: recomputeFinance_def) (simp add: s' markFinanceDirty_def)
qed

text \<open>
  Claim C7: a cached finance getter (\<open>grossRevenue\<close>, \<open>grossCost\<close>, \<open>grossProfit\<close>,
  \<open>netRevenue\<close>, \<open>netProfit\<close>) called twice with no mutation in between returns the same
  value both times (and leaves the same state); the snapshot a recomputation writes is a
  function of the rate, the COS list and the capacity plan alone, and recomputing again
  writes the same snapshot.
\<close>

theorem finance_getters_idempotent:
  "(grossRevenue s = (v1, s1) \<longrightarrow> grossRevenue s1 = (v1, s1))
   \<and> (grossCost s = (v2, s2) \<longrightarrow> grossCost s2 = (v2, s2))
   \<and> (grossProfit s = (v3, s3) \<longrightarrow> grossProfit s3 = (v3, s3))
   \<and> (netRevenue s = (v4, s4) \<longrightarrow> netRevenue s4 = (v4, s4))
   \<and> (netProfit s = (v5, s5) \<longrightarrow> netProfit s5 = (v5, s5))
   \<and> (rate s = rate t \<and> md_cos (metadata s) = md_cos (metadata t)
        \<and> md_capacityPlan (metadata s) = md_capacityPlan (metadata t)
        \<longrightarrow> financeSnapshot s = financeSnapshot t)
   \<and> (financeDirty s \<and> recomputeFinance s = (Inr (), s')
        \<longrightarrow> financeSnapshot s = Inr (md_finance (metadata s'))
            \<and> recomputeFinance (markFinanceDirty s') = (Inr (), s'))"
proof -
  have "financeSnapshot s = Inr (md_finance (metadata s'))"
    if "financeDirty s" and "recomputeFinance s = (Inr (), s')"
    using that by (cases "financeSnapshot s") (auto simp: recomputeFinance_def)
  then show ?thesis
    unfolding grossRevenue_def grossCost_def grossProfit_def netRevenue_def netProfit_def
    using financeGetter_twice financeSnapshot_depends recomputeFinance_forced_again by blast
qed

section \<open>What every subscription satisfies\<close>

text \<open>
  The snapshot is a function of the rate, of the subtotals of the COS items and of the
  entries of the plan. A call that leaves these, the flag and the stored snapshot as they
  were, or that sets the flag, keeps the cache coherent; every call of the public interface
  is one or the other, except a recomputation, which stores the snapshot it has computed.
\<close>

lemma financeSnapshot_cong:
  assumes "rate s = rate t"
    and "map subtotal (md_cos (metadata s)) = map subtotal (md_cos (metadata t))"
    and "planOrEmpty s = planOrEmpty t"
  shows "financeSnapshot s = financeSnapshot t"
proof -
  have z: "DEFAULT_ZERO s = DEFAULT_ZERO t"
    using assms(1) by (simp add: DEFAULT_ZERO_def)
  have r: "computeGrossRevenue s = computeGrossRevenue t"
    unfolding computeGrossRevenue_def z assms ..
  have c: "computeGrossCOS s = computeGrossCOS t"
    unfolding computeGrossCOS_def z assms ..
  have g: "computeGrossProfit s = computeGrossProfit t"
    unfolding computeGrossProfit_def r c ..
  show ?thesis
    unfolding financeSnapshot_def r c g ..
qed

lemma classInvariant_kept:
  assumes "classInvariant s"
    and "sub_id t = sub_id s" and "slug s \<noteq> [] \<Longrightarrow> slug t \<noteq> []"
    and "rate s = md_rate (metadata s) \<Longrightarrow> rate t = md_rate (metadata t)"
    and "financeDirty t \<or>
         (financeDirty t = financeDirty s \<and> md_finance (metadata t) = md_finance (metadata s)
          \<and> rate t = rate s
          \<and> map subtotal (md_cos (metadata t)) = map subtotal (md_cos (metadata s))
          \<and> planOrEmpty t = planOrEmpty s)"
  shows "classInvariant t"
proof -
  have "financeCoherent t"
  proof (cases "financeDirty t")
    case True
    then show ?thesis by (simp add: financeCoherent_def)
  next
    case False
    with assms(5) have same: "financeDirty t = financeDirty s"
      "md_finance (metadata t) = md_finance (metadata s)" "rate t = rate s"
      "map subtotal (md_cos (metadata t)) = map subtotal (md_cos (metadata s))"
      "planOrEmpty t = planOrEmpty s" by auto
    have "financeSnapshot t = financeSnapshot s"
      by (rule financeSnapshot_cong) (simp_all add: same)
    with assms(1) same False show ?thesis by (simp add: classInvariant_def financeCoherent_def)
  qed
  with assms(1-4) show ?thesis by (auto simp: classInvariant_def)
qed

lemma generateSlug_nonempty: "generateSlug e nm \<noteq> []"
  by (simp add: generateSlug_def)

lemma autogenerateID_nonempty: "autogenerateID e prefix \<noteq> []"
  by (simp add: autogenerateID_def)

lemma orElse_nonempty: "b \<noteq> [] \<Longrightarrow> orElse a b \<noteq> []"
  by (simp add: orElse_def split: option.split)

lemma new_MajikSubscription_invariant:
  "classInvariant (new_MajikSubscription e ident slg nm md sett ts lu)"
  by (simp add: classInvariant_def new_MajikSubscription_def Let_def financeCoherent_def
      orElse_nonempty generateSlug_nonempty autogenerateID_nonempty)

lemma setName_invariant: "classInvariant s \<Longrightarrow> classInvariant (snd (setName e nm s))"
  by (erule classInvariant_kept)
    (simp_all add: setName_def generateSlug_nonempty planOrEmpty_def)

lemma setRate_invariant: "classInvariant s \<Longrightarrow> classInvariant (snd (setRate e rt s))"
  by (erule classInvariant_kept) (simp_all add: setRate_def)

lemma setRateUnit_invariant: "classInvariant s \<Longrightarrow> classInvariant (snd (setRateUnit e u s))"
  by (erule classInvariant_kept) (simp_all add: setRateUnit_def)

lemma setRateAmount_invariant: "classInvariant s \<Longrightarrow> classInvariant (snd (setRateAmount e amt s))"
  by (erule classInvariant_kept) (simp_all add: setRateAmount_def Let_def)

lemma setCategory_invariant: "classInvariant s \<Longrightarrow> classInvariant (snd (setCategory e cat s))"
  by (erule classInvariant_kept) (simp_all add: setCategory_def planOrEmpty_def)

lemma setDescription_invariant:
  "classInvariant s \<Longrightarrow> classInvariant (snd (setDescription e html txt s))"
  by (erule classInvariant_kept) (simp_all add: setDescription_def)

lemma setDescriptionText_invariant:
  "classInvariant s \<Longrightarrow> classInvariant (snd (setDescriptionText e txt s))"
  by (erule classInvariant_kept) (simp_all add: setDescriptionText_def)

lemma setDescriptionHTML_invariant:
  "classInvariant s \<Longrightarrow> classInvariant (snd (setDescriptionHTML e html s))"
  by (erule classInvariant_kept) (simp_all add: setDescriptionHTML_def)

lemma setDescriptionSEO_invariant:
  "classInvariant s \<Longrightarrow> classInvariant (snd (setDescriptionSEO e txt s))"
  by (erule classInvariant_kept) (simp_all add: setDescriptionSEO_def)

lemma setType_invariant: "classInvariant s \<Longrightarrow> classInvariant (snd (setType e ty s))"
  by (erule classInvariant_kept) (simp_all add: setType_def planOrEmpty_def)

lemma addCOS_invariant: "classInvariant s \<Longrightarrow> classInvariant (snd (addCOS e nm cost q u s))"
  by (erule classInvariant_kept) (simp_all add: addCOS_def split: option.split)

lemma pushCOS_invariant: "classInvariant s \<Longrightarrow> classInvariant (snd (pushCOS e it s))"
  by (erule classInvariant_kept) (simp_all add: pushCOS_def split: option.split)

lemma subtotal_quantity_update:
  "map subtotal (xs[i := (xs ! i)\<lparr>quantity := n\<rparr>]) = map subtotal xs"
  by (cases "i < length xs") (simp_all add: map_update list_update_same_conv list_update_beyond)

lemma updateCOS_invariant:
  "classInvariant s \<Longrightarrow> classInvariant (snd (updateCOS e ident updates s))"
  by (erule classInvariant_kept)
    (simp_all add: updateCOS_def Let_def subtotal_quantity_update split: option.split)

lemma setCOS_invariant: "classInvariant s \<Longrightarrow> classInvariant (snd (setCOS e items s))"
  by (erule classInvariant_kept) (simp_all add: setCOS_def split: option.split)

lemma removeCOS_invariant: "classInvariant s \<Longrightarrow> classInvariant (snd (removeCOS e ident s))"
  by (erule classInvariant_kept) (simp_all add: removeCOS_def split: option.split)

lemma clearCostBreakdown_invariant: "classInvariant s \<Longrightarrow> classInvariant (snd (clearCostBreakdown e s))"
  by (erule classInvariant_kept) (simp_all add: clearCostBreakdown_def)

lemma setCapacity_invariant: "classInvariant s \<Longrightarrow> classInvariant (snd (setCapacity e p s))"
  by (erule classInvariant_kept) (simp_all add: setCapacity_def)

lemma generateCapacityPlan_invariant:
  "classInvariant s \<Longrightarrow> classInvariant (snd (generateCapacityPlan e months amt growthRate startDate s))"
  by (erule classInvariant_kept) (simp_all add: generateCapacityPlan_def setCapacity_def split: sum.split)

lemma normalizeCapacityUnits_invariant:
  "classInvariant s \<Longrightarrow> classInvariant (snd (normalizeCapacityUnits e amt s))"
  by (erule classInvariant_kept) (simp_all add: normalizeCapacityUnits_def split: option.split)

lemma recomputeCapacityPeriod_invariant:
  "classInvariant s \<Longrightarrow> classInvariant (snd (recomputeCapacityPeriod e start end_month mode s))"
  by (erule classInvariant_kept)
    (simp_all add: recomputeCapacityPeriod_def Let_def split: sum.split option.split)

lemma addCapacity_invariant:
  "classInvariant s \<Longrightarrow> classInvariant (snd (addCapacity e m units adj s))"
  by (erule classInvariant_kept) (simp_all add: addCapacity_def Let_def)

lemma updateCapacityUnits_invariant:
  "classInvariant s \<Longrightarrow> classInvariant (snd (updateCapacityUnits e m units s))"
  by (erule classInvariant_kept) (simp_all add: updateCapacityUnits_def split: option.split)

lemma updateCapacityAdjustment_invariant:
  "classInvariant s \<Longrightarrow> classInvariant (snd (updateCapacityAdjustment e m adj s))"
  by (erule classInvariant_kept) (simp_all add: updateCapacityAdjustment_def split: option.split)

lemma removeCapacity_invariant:
  "classInvariant s \<Longrightarrow> classInvariant (snd (removeCapacity e m s))"
  by (erule classInvariant_kept) (simp_all add: removeCapacity_def split: option.split)

lemma clearCapacity_invariant: "classInvariant s \<Longrightarrow> classInvariant (snd (clearCapacity e s))"
  by (erule classInvariant_kept) (simp_all add: clearCapacity_def)

lemma applyTrial_invariant: "classInvariant s \<Longrightarrow> classInvariant (snd (applyTrial e months s))"
  by (erule classInvariant_kept) (simp_all add: applyTrial_def split: option.split)

lemma recomputeFinance_invariant:
  assumes "classInvariant s"
  shows "classInvariant (snd (recomputeFinance s))"
proof (cases "financeDirty s")
  case False
  with assms show ?thesis by (simp add: recomputeFinance_def)
next
  case True
  show ?thesis
  proof (cases "financeSnapshot s")
    case (Inl err)
    with True assms show ?thesis by (simp add: recomputeFinance_def)
  next
    case (Inr snapshot)
    define t where "t = s\<lparr>metadata := (metadata s)\<lparr>md_finance := snapshot\<rparr>, financeDirty := False\<rparr>"
    have "financeSnapshot t = financeSnapshot s"
      by (rule financeSnapshot_cong) (simp_all add: t_def planOrEmpty_def)
    with Inr have "financeCoherent t" by (simp add: financeCoherent_def t_def)
    with assms have "classInvariant t" by (simp add: classInvariant_def t_def)
    with True Inr show ?thesis by (simp add: recomputeFinance_def t_def)
  qed
qed

lemma financeGetter_state: "snd (financeGetter field s) = snd (recomputeFinance s)"
  by (cases "recomputeFinance s"; cases "fst (recomputeFinance s)") (simp_all add: financeGetter_def)

lemma perform_invariant: "classInvariant s \<Longrightarrow> classInvariant (perform e c s)"
  by (cases c)
    (simp_all add: setName_invariant setRate_invariant setRateUnit_invariant setRateAmount_invariant
      setCategory_invariant setDescription_invariant setDescriptionText_invariant
      setDescriptionHTML_invariant setDescriptionSEO_invariant setType_invariant addCOS_invariant
      pushCOS_invariant updateCOS_invariant setCOS_invariant removeCOS_invariant
      clearCostBreakdown_invariant setCapacity_invariant generateCapacityPlan_invariant
      normalizeCapacityUnits_invariant recomputeCapacityPeriod_invariant addCapacity_invariant
      updateCapacityUnits_invariant updateCapacityAdjustment_invariant removeCapacity_invariant
      clearCapacity_invariant applyTrial_invariant grossRevenue_def grossCost_def grossProfit_def
      netRevenue_def netProfit_def financeGetter_state recomputeFinance_invariant)

lemma subscriptionAfter_invariant:
  "classInvariant s \<Longrightarrow> classInvariant (subscriptionAfter calls s)"
  unfolding subscriptionAfter_def
  by (induction calls arbitrary: s) (auto simp: perform_invariant)

lemma subscription_invariant:
  "classInvariant (subscriptionAfter calls (new_MajikSubscription e ident slg nm md sett ts lu))"
  by (rule subscriptionAfter_invariant) (rule new_MajikSubscription_invariant)

section \<open>Totals\<close>






lemma financeGetter_value:
  assumes "financeCoherent s" and "financeSnapshot s = Inr f"
  shows "fst (financeGetter field s) = Inr (field f)"
proof (cases "financeDirty s")
  case True
  with assms show ?thesis by (simp add: financeGetter_def recomputeFinance_def)
next
  case False
  with assms show ?thesis by (simp add: financeGetter_def recomputeFinance_def financeCoherent_def)
qed

lemma empty_currency_code_seed:
  "currency (amount (rate s)) = [] \<Longrightarrow> DEFAULT_ZERO s = fromMinor 0 ''PHP''"
  by (simp add: DEFAULT_ZERO_def orElse_def)




theorem finance_getters_idempotent_witness:
  "grossRevenue (snd (grossRevenue exampleUnsorted)) = grossRevenue exampleUnsorted
   \<and> netProfit (snd (netProfit exampleUnsorted)) = netProfit exampleUnsorted
   \<and> financeSnapshot (snd (grossRevenue exampleUnsorted)) = financeSnapshot exampleUnsorted"
proof -
  have same: "rate (snd (grossRevenue exampleUnsorted)) = rate exampleUnsorted
      \<and> md_cos (metadata (snd (grossRevenue exampleUnsorted))) = md_cos (metadata exampleUnsorted)
      \<and> md_capacityPlan (metadata (snd (grossRevenue exampleUnsorted))) = md_capacityPlan (metadata exampleUnsorted)"
    by (cases "financeSnapshot exampleUnsorted")
      (simp_all add: grossRevenue_def financeGetter_def recomputeFinance_def)
  note first = finance_getters_idempotent [where s = exampleUnsorted
        and ?v1.0 = "fst (grossRevenue exampleUnsorted)" and ?s1.0 = "snd (grossRevenue exampleUnsorted)"
        and ?v5.0 = "fst (netProfit exampleUnsorted)" and ?s5.0 = "snd (netProfit exampleUnsorted)"]
  note second = finance_getters_idempotent [where s = "snd (grossRevenue exampleUnsorted)" and t = exampleUnsorted]
  have a: "grossRevenue (snd (grossRevenue exampleUnsorted)) = grossRevenue exampleUnsorted"
    using first [THEN conjunct1] by simp
  have b: "netProfit (snd (netProfit exampleUnsorted)) = netProfit exampleUnsorted"
    using first [THEN conjunct2, THEN conjunct2, THEN conjunct2, THEN conjunct2, THEN conjunct1] by simp
  have c: "financeSnapshot (snd (grossRevenue exampleUnsorted)) = financeSnapshot exampleUnsorted"
    using second [THEN conjunct2, THEN conjunct2, THEN conjunct2, THEN conjunct2, THEN conjunct2, THEN conjunct1] same
    by blast
  from a b c show ?thesis by blast
qed

section \<open>Serialization\<close>

lemma financeGetter_coherent:
  assumes "financeCoherent s"
  shows "fst (financeGetter field s) = (case financeSnapshot s of Inl err \<Rightarrow> Inl err | Inr f \<Rightarrow> Inr (field f))"
proof (cases "financeSnapshot s")
  case (Inl err)
  with assms have "financeDirty s" by (auto simp: financeCoherent_def split: if_splits)
  with Inl show ?thesis by (simp add: financeGetter_def recomputeFinance_def)
next
  case (Inr f)
  with financeGetter_value [OF assms Inr] show ?thesis by simp
qed

lemma deserializeOneMoney_inverse [simp]: "deserializeOneMoney (serializeOneMoney m) = m"
  by (simp add: deserializeOneMoney_def serializeOneMoney_def)

lemma deserializeCOSItem_inverse [simp]: "deserializeCOSItem (serializeCOSItem c) = c"
  by (simp add: deserializeCOSItem_def serializeCOSItem_def)

lemma deserializeValueRatio_inverse [simp]: "deserializeValueRatio (serializeValueRatio v) = v"
  by (simp add: deserializeValueRatio_def serializeValueRatio_def)

lemma deserializeGrossNet_inverse [simp]: "deserializeGrossNet (serializeGrossNet g) = g"
  by (simp add: deserializeGrossNet_def serializeGrossNet_def)

lemma deserializeFinance_inverse [simp]: "deserializeFinance (serializeFinance f) = f"
  by (simp add: deserializeFinance_def serializeFinance_def)

lemma deserializeRate_inverse [simp]: "deserializeRate (serializeRate r) = r"
  by (simp add: deserializeRate_def serializeRate_def)

lemma deserializeMetadata_inverse [simp]: "deserializeMetadata (serializeMetadata md) = md"
  by (simp add: deserializeMetadata_def serializeMetadata_def comp_def)

lemma deserializeMoney_inverse: "deserializeMoney (serializeMoney p) = p"
  by (simp add: deserializeMoney_def serializeMoney_def option.map_comp comp_def option.map_ident)

lemma parseFromJSON_toJSON:
  assumes "sub_id x \<noteq> []" and "timestamp x \<noteq> []"
  shows "parseFromJSON e (toJSON x) =
     Inr (new_MajikSubscription e (Some (sub_id x)) (Some (slug x)) (sub_name x)
            (metadata x) (Some (settings x)) (Some (timestamp x)) (Some (last_update x)))"
  using assms
  by (simp add: parseFromJSON_def toJSON_def deserializeMoney_inverse Let_def)
    (simp add: preJSON_def orElse_def)

lemma parseFromJSON_empty_timestamp:
  assumes "timestamp x = []"
  shows "parseFromJSON e (toJSON x) = Inl MissingField"
  using assms
  by (simp add: parseFromJSON_def toJSON_def deserializeMoney_inverse Let_def)
    (simp add: preJSON_def orElse_def)

text \<open>
  Claim C9, as stated: for every subscription \<open>x\<close>, \<^verbatim>\<open>parseFromJSON(toJSON(x))\<close>
  reconstructs a subscription with the identifier, slug, rate, COS list, capacity plan and
  finance totals of \<open>x\<close>. The constructor keeps the timestamp it is given, the empty
  string too (the default replaces a missing argument only), and \<^verbatim>\<open>parseFromJSON\<close>
  throws when the timestamp is falsy: on the subscription below the round trip throws.
\<close>

theorem json_round_trip_empty_timestamp:
  "exampleNoTimestamp = subscriptionAfter []
      (new_MajikSubscription exampleEnv (Some ''mjksub-G7K2aZp9'') (Some ''pro-plan-X4tF9z'') ''Pro Plan''
         exampleMetadata (Some defaultSettings) (Some '''') (Some ''2026-01-15T08:00:00.000Z''))
   \<and> sub_id exampleNoTimestamp = ''mjksub-G7K2aZp9''
   \<and> timestamp exampleNoTimestamp = ''''
   \<and> parseFromJSON exampleEnv (toJSON exampleNoTimestamp) = Inl MissingField"
proof -
  have t: "timestamp exampleNoTimestamp = ''''"
    by (simp add: exampleNoTimestamp_def new_MajikSubscription_def)
  have i: "sub_id exampleNoTimestamp = ''mjksub-G7K2aZp9''"
    by (simp add: exampleNoTimestamp_def new_MajikSubscription_def orElse_def)
  from t i parseFromJSON_empty_timestamp [OF t] show ?thesis
    by (simp add: subscriptionAfter_def exampleNoTimestamp_def)
qed

text \<open>
  Claim C9, amended: for every subscription \<open>x\<close> whose timestamp is not the empty string,
  \<^verbatim>\<open>parseFromJSON(toJSON(x))\<close> returns a subscription with the identifier, slug, rate, COS
  list, capacity plan and stored finance snapshot of \<open>x\<close>, and whose five finance
  getters return what those of \<open>x\<close> return.
\<close>

theorem json_round_trip:
  assumes "x = subscriptionAfter calls (new_MajikSubscription e0 ident slg nm md sett ts lu)"
    and "timestamp x \<noteq> []"
  shows "\<exists>y. parseFromJSON e (toJSON x) = Inr y
           \<and> sub_id y = sub_id x \<and> slug y = slug x \<and> rate y = rate x
           \<and> md_cos (metadata y) = md_cos (metadata x)
           \<and> md_capacityPlan (metadata y) = md_capacityPlan (metadata x)
           \<and> md_finance (metadata y) = md_finance (metadata x)
           \<and> fst (grossRevenue y) = fst (grossRevenue x)
           \<and> fst (grossCost y) = fst (grossCost x)
           \<and> fst (grossProfit y) = fst (grossProfit x)
           \<and> fst (netRevenue y) = fst (netRevenue x)
           \<and> fst (netProfit y) = fst (netProfit x)"
proof -
  from assms(1) have inv: "classInvariant x" by (simp add: subscription_invariant)
  then have ident: "sub_id x \<noteq> []" and slg: "slug x \<noteq> []" and rt: "rate x = md_rate (metadata x)"
    and coherent: "financeCoherent x"
    by (simp_all add: classInvariant_def)
  define y where "y = new_MajikSubscription e (Some (sub_id x)) (Some (slug x)) (sub_name x)
      (metadata x) (Some (settings x)) (Some (timestamp x)) (Some (last_update x))"
  have parse: "parseFromJSON e (toJSON x) = Inr y"
    unfolding y_def by (rule parseFromJSON_toJSON [OF ident assms(2)])
  have fields: "sub_id y = sub_id x" "slug y = slug x" "rate y = rate x" "metadata y = metadata x"
    "financeDirty y"
    using ident slg rt by (simp_all add: y_def new_MajikSubscription_def orElse_def Let_def)
  have snap: "financeSnapshot y = financeSnapshot x"
    by (rule financeSnapshot_depends) (simp_all add: fields)
  have cy: "financeCoherent y"
    by (simp add: financeCoherent_def fields)
  have "fst (financeGetter field y) = fst (financeGetter field x)" for field
    by (simp add: financeGetter_coherent [OF cy] financeGetter_coherent [OF coherent] snap)
  then show ?thesis
    using parse fields
    by (simp add: grossRevenue_def grossCost_def grossProfit_def netRevenue_def netProfit_def)
qed

theorem json_round_trip_witness:
  "timestamp exampleUnsorted \<noteq> []
   \<and> (\<exists>y. parseFromJSON exampleEnv (toJSON exampleUnsorted) = Inr y
       \<and> sub_id y = ''mjksub-G7K2aZp9'' \<and> slug y = ''pro-plan-X4tF9z'' \<and> rate y = exampleRate
       \<and> md_cos (metadata y) = md_cos (metadata exampleUnsorted)
       \<and> md_capacityPlan (metadata y) = md_capacityPlan (metadata exampleUnsorted)
       \<and> fst (grossRevenue y) = fst (grossRevenue exampleUnsorted))"
proof -
  have t: "timestamp exampleUnsorted \<noteq> []" by simp
  from json_round_trip [OF exampleUnsorted_history t, of exampleEnv] t
  show ?thesis by simp blast
qed

section \<open>One entry per month\<close>

lemma findIndex_Some_less: "findIndex P xs = Some i \<Longrightarrow> i < length xs"
  by (induction xs arbitrary: i) (auto split: if_splits option.splits)

lemma map_month_update_capacity:
  "map month (xs[i := (xs ! i)\<lparr>capacity := u\<rparr>]) = map month xs"
  by (cases "i < length xs") (simp_all add: map_update list_update_same_conv list_update_beyond)

lemma map_month_update_adjustment:
  "map month (xs[i := (xs ! i)\<lparr>adjustment := a\<rparr>]) = map month xs"
  by (cases "i < length xs") (simp_all add: map_update list_update_same_conv list_update_beyond)

lemma distinct_remove_index:
  assumes "distinct (map f xs)"
  shows "distinct (map f (take i xs @ drop (Suc i) xs))"
proof -
  have "set (take i (map f xs)) \<inter> set (drop (Suc i) (map f xs)) = {}"
    by (rule set_take_disj_set_drop_if_distinct [OF assms]) simp
  with assms show ?thesis
    by (simp add: take_map drop_map distinct_take distinct_drop flip: take_map drop_map)
qed

lemma map_month_trialLoop: "map month (trialLoop months i xs) = map month xs"
  by (induction xs arbitrary: i) simp_all

lemma distinct_months_sort:
  "distinct (map month (sort_key month xs)) = distinct (map month xs)"
proof -
  have "mset (map month (sort_key month xs)) = mset (map month xs)"
    by simp
  then show ?thesis by (rule mset_eq_imp_distinct_iff)
qed

lemma addCapacity_distinct:
  assumes "distinctMonths s"
  shows "distinctMonths (snd (addCapacity e m units adj s))"
proof (cases "isValidYYYYMM m")
  case False
  with assms show ?thesis by (simp add: addCapacity_def)
next
  case True
  show ?thesis
  proof (cases "list_ex (\<lambda>c. month c = m) (planOrEmpty s)")
    case True
    with \<open>isValidYYYYMM m\<close> assms show ?thesis
      by (simp add: addCapacity_def Let_def distinctMonths_def)
  next
    case False
    then have "m \<notin> set (map month (planOrEmpty s))"
      by (auto simp: list_ex_iff)
    with False \<open>isValidYYYYMM m\<close> assms show ?thesis
      by (simp add: addCapacity_new distinctMonths_def)
  qed
qed

lemma addCapacity_duplicate:
  assumes "isValidYYYYMM m" and "list_ex (\<lambda>c. month c = m) (planOrEmpty s)"
  shows "fst (addCapacity e m units adj s) = Inl DuplicateMonth
       \<and> planOrEmpty (snd (addCapacity e m units adj s)) = planOrEmpty s"
  using assms by (simp add: addCapacity_def Let_def)

lemma updateCapacityUnits_distinct:
  "distinctMonths s \<Longrightarrow> distinctMonths (snd (updateCapacityUnits e m units s))"
  by (simp add: updateCapacityUnits_def distinctMonths_def map_month_update_capacity split: option.split)

lemma updateCapacityAdjustment_distinct:
  "distinctMonths s \<Longrightarrow> distinctMonths (snd (updateCapacityAdjustment e m adj s))"
  by (simp add: updateCapacityAdjustment_def distinctMonths_def map_month_update_adjustment split: option.split)

lemma removeCapacity_distinct:
  "distinctMonths s \<Longrightarrow> distinctMonths (snd (removeCapacity e m s))"
  using distinct_remove_index [of month "planOrEmpty s"]
  by (simp add: removeCapacity_def distinctMonths_def split: option.split)

lemma clearCapacity_distinct: "distinctMonths (snd (clearCapacity e s))"
  by (simp add: clearCapacity_def distinctMonths_def)

lemma normalizeCapacityUnits_distinct:
  "distinctMonths s \<Longrightarrow> distinctMonths (snd (normalizeCapacityUnits e amt s))"
  by (auto simp: normalizeCapacityUnits_def distinctMonths_def planOrEmpty_def comp_def split: option.split)

lemma applyTrial_distinct:
  "distinctMonths s \<Longrightarrow> distinctMonths (snd (applyTrial e months s))"
  by (auto simp: applyTrial_def distinctMonths_def map_month_trialLoop distinct_months_sort
      planOrEmpty_def split: option.split)

lemma setCapacity_installs:
  "fst (setCapacity e p s) = Inr () \<Longrightarrow> planOrEmpty (snd (setCapacity e p s)) = p"
  by (simp add: setCapacity_def split: if_splits)

lemma setCapacity_distinct_iff:
  "fst (setCapacity e p s) = Inr () \<Longrightarrow> distinctMonths (snd (setCapacity e p s)) = distinct (map month p)"
  by (simp add: distinctMonths_def setCapacity_installs)

lemma setCapacity_distinct:
  "distinct (map month p) \<Longrightarrow> distinctMonths s \<Longrightarrow> distinctMonths (snd (setCapacity e p s))"
  by (simp add: setCapacity_def distinctMonths_def)

text \<open>
  The months that \<^verbatim>\<open>recomputeCapacityPeriod\<close> and \<^verbatim>\<open>generateCapacityPlan\<close> write.
  The decimal spelling of a number determines the number, so the key of a month determines
  the month; the keys written by one run of a loop are those of consecutive months, or the
  loop throws.
\<close>

lemma decimalValue_snoc: "decimalValue (xs @ [c]) = 10 * decimalValue xs + digitValue c"
  by (simp add: decimalValue_def)

lemma digit_of_index:
  assumes "k < 10"
  shows "digitValue (''0123456789'' ! k) = k" and "isDigit (''0123456789'' ! k)"
proof -
  from assms have "k \<in> {0, 1, 2, 3, 4, 5, 6, 7, 8, 9}" by auto
  then show "digitValue (''0123456789'' ! k) = k" and "isDigit (''0123456789'' ! k)"
    by (auto simp: digitValue_def isDigit_def)
qed

lemma showNat_value: "decimalValue (showNat n) = n"
proof (induction n rule: showNat.induct)
  case (1 n)
  show ?case
  proof (cases "n < 10")
    case True
    then show ?thesis
      by (subst showNat.simps) (simp add: decimalValue_def digit_of_index(1))
  next
    case False
    with 1 have "decimalValue (showNat (n div 10)) = n div 10" by simp
    with False show ?thesis
      by (subst showNat.simps) (simp add: decimalValue_snoc digit_of_index(1))
  qed
qed

lemma showNat_digits: "list_all isDigit (showNat n) \<and> showNat n \<noteq> []"
proof (induction n rule: showNat.induct)
  case (1 n)
  show ?case
  proof (cases "n < 10")
    case True
    then show ?thesis
      by (subst (1 2) showNat.simps) (simp add: digit_of_index(2))
  next
    case False
    with 1 have "list_all isDigit (showNat (n div 10))" by simp
    with False show ?thesis
      by (subst (1 2) showNat.simps) (simp add: digit_of_index(2))
  qed
qed

lemma String_of_inj:
  assumes "String_of a = String_of b"
  shows "a = b"
proof -
  have neg: "hd (String_of x) = CHR ''-''" if "x < 0" for x
    using that by (simp add: String_of_def)
  have pos: "hd (String_of x) \<noteq> CHR ''-''" if "\<not> x < 0" for x
  proof -
    from showNat_digits [of "nat x"] have "isDigit (hd (showNat (nat x)))"
      by (cases "showNat (nat x)") simp_all
    then show ?thesis using that by (auto simp: String_of_def isDigit_def)
  qed
  have sign: "(a < 0) = (b < 0)"
    using neg [of a] neg [of b] pos [of a] pos [of b] assms by metis
  show ?thesis
  proof (cases "a < 0")
    case True
    with sign assms have "showNat (nat (- a)) = showNat (nat (- b))" by (simp add: String_of_def)
    then have "decimalValue (showNat (nat (- a))) = decimalValue (showNat (nat (- b)))" by simp
    with True sign show ?thesis by (simp add: showNat_value)
  next
    case False
    with sign assms have "showNat (nat a) = showNat (nat b)" by (simp add: String_of_def)
    then have "decimalValue (showNat (nat a)) = decimalValue (showNat (nat b))" by simp
    with False sign show ?thesis by (simp add: showNat_value)
  qed
qed

lemma decimalValue_zeros: "decimalValue (replicate k CHR ''0'' @ s) = decimalValue s"
  by (induction k) (simp_all add: decimalValue_def digitValue_def)

lemma monthPart:
  assumes "0 \<le> k" and "k < 100"
  shows "length (padStart2 (String_of k)) = 2" and "int (decimalValue (padStart2 (String_of k))) = k"
proof -
  have len: "length (showNat (nat k)) \<le> 2"
  proof (cases "nat k < 10")
    case True
    then show ?thesis by (subst showNat.simps) simp
  next
    case False
    moreover from assms have "nat k div 10 < 10" by simp
    ultimately show ?thesis
      by (subst showNat.simps, subst showNat.simps) simp
  qed
  from showNat_digits [of "nat k"] have "1 \<le> length (showNat (nat k))"
    by (cases "showNat (nat k)") simp_all
  with len assms show "length (padStart2 (String_of k)) = 2"
    by (simp add: padStart2_def String_of_def)
  from assms show "int (decimalValue (padStart2 (String_of k))) = k"
    by (simp add: padStart2_def String_of_def decimalValue_zeros showNat_value)
qed

lemma monthKey_inj:
  assumes "monthKey a = monthKey b"
  shows "a = b"
proof -
  have ra: "0 \<le> a mod 12 + 1" "a mod 12 + 1 < 100" and rb: "0 \<le> b mod 12 + 1" "b mod 12 + 1 < 100"
    by simp_all
  define A where "A = String_of (a div 12) @ ''-''"
  define B where "B = String_of (b div 12) @ ''-''"
  define P where "P = padStart2 (String_of (a mod 12 + 1))"
  define Q where "Q = padStart2 (String_of (b mod 12 + 1))"
  have "A @ P = B @ Q"
    using assms by (simp add: monthKey_def A_def B_def P_def Q_def)
  moreover have "length P = length Q"
    using monthPart(1) [OF ra] monthPart(1) [OF rb] by (simp add: P_def Q_def)
  ultimately have "A = B" and pq: "P = Q"
    by (simp_all add: append_eq_append_conv)
  then have "String_of (a div 12) = String_of (b div 12)"
    by (simp add: A_def B_def)
  then have d: "a div 12 = b div 12" by (rule String_of_inj)
  have "int (decimalValue P) = a mod 12 + 1" "int (decimalValue Q) = b mod 12 + 1"
    using monthPart(2) [OF ra] monthPart(2) [OF rb] by (simp_all add: P_def Q_def)
  with pq have m: "a mod 12 = b mod 12" by simp
  have "a = 12 * (a div 12) + a mod 12" by simp
  also have "\<dots> = 12 * (b div 12) + b mod 12" by (simp only: d m)
  also have "\<dots> = b" by simp
  finally show ?thesis .
qed

lemma dateToYYYYMM_Some: "dateToYYYYMM (Some d) = Inr (monthKey d)"
  by (simp add: dateToYYYYMM_def monthKey_def getUTCFullYear_def getUTCMonth_def)

lemma localMonthKey_Some: "localMonthKey (Some d) = monthKey d"
  by (simp add: localMonthKey_def monthKey_def)

lemma offsetMonths_shape:
  "\<exists>c. \<forall>j k. offsetMonthsToYYYYMM e inp j = Inr k \<longrightarrow> k = monthKey (c + j)"
proof (cases "normalizeStartDate e (Some inp)")
  case (Inl err)
  then show ?thesis by (simp add: offsetMonthsToYYYYMM_def)
next
  case (Inr date)
  show ?thesis
  proof (cases date)
    case None
    with Inr show ?thesis by (simp add: offsetMonthsToYYYYMM_def dateToYYYYMM_def)
  next
    case (Some d)
    define y where "y = (if 0 \<le> getUTCFullYear d \<and> getUTCFullYear d \<le> 99 then 1900 + getUTCFullYear d else getUTCFullYear d)"
    have "k = monthKey (12 * y + getUTCMonth d + j)"
      if "offsetMonthsToYYYYMM e inp j = Inr k" for j k
    proof -
      from that Inr Some
      have k: "dateToYYYYMM (Date_UTC (getUTCFullYear d) (getUTCMonth d + j)) = Inr k"
        by (simp add: offsetMonthsToYYYYMM_def)
      then have "Date_UTC (getUTCFullYear d) (getUTCMonth d + j) \<noteq> None"
        by (auto simp: dateToYYYYMM_def split: option.splits)
      then have "Date_UTC (getUTCFullYear d) (getUTCMonth d + j) = Some (12 * y + (getUTCMonth d + j))"
        by (auto simp: Date_UTC_def y_def Let_def split: if_splits)
      with k show ?thesis by (simp add: dateToYYYYMM_Some add.assoc)
    qed
    then show ?thesis by blast
  qed
qed

lemma offsetMonths_inj:
  assumes "offsetMonthsToYYYYMM e inp i = Inr k" and "offsetMonthsToYYYYMM e inp j = Inr k"
  shows "i = j"
proof -
  from offsetMonths_shape [of e inp] obtain c
    where c: "\<And>j k. offsetMonthsToYYYYMM e inp j = Inr k \<Longrightarrow> k = monthKey (c + j)" by blast
  from c [OF assms(1)] c [OF assms(2)] have "monthKey (c + i) = monthKey (c + j)" by simp
  then have "c + i = c + j" by (rule monthKey_inj)
  then show ?thesis by simp
qed

lemma distributeLoop_months:
  "distributeLoop e start n base r i acc = Inr newPlan \<Longrightarrow>
   map (\<lambda>c. Inr (month c)) newPlan
     = map (\<lambda>c. Inr (month c)) acc @ map (offsetMonthsToYYYYMM e (StringInput start)) [i..n - 1]"
proof (induction "nat (n - i)" arbitrary: i r acc)
  case 0
  then have "\<not> i < n" by simp
  with 0 show ?case by (simp add: distributeLoop.simps)
next
  case (Suc k)
  then have lt: "i < n" and k: "k = nat (n - (i + 1))" by simp_all
  have unfold: "distributeLoop e start n base r i acc =
      (case offsetMonthsToYYYYMM e (StringInput start) i of
         Inl err \<Rightarrow> Inl err
       | Inr m \<Rightarrow> distributeLoop e start n base (r - 1) (i + 1)
           (acc @ [\<lparr>month = m, capacity = base + (if 0 < r then 1 else 0), adjustment = None\<rparr>]))"
    by (subst distributeLoop.simps) (simp add: lt Let_def)
  from Suc.prems obtain m where off: "offsetMonthsToYYYYMM e (StringInput start) i = Inr m"
    and rec: "distributeLoop e start n base (r - 1) (i + 1)
        (acc @ [\<lparr>month = m, capacity = base + (if 0 < r then 1 else 0), adjustment = None\<rparr>]) = Inr newPlan"
    unfolding unfold by (auto split: sum.splits)
  have up: "[i..n - 1] = i # [i + 1..n - 1]"
    using lt by (simp add: upto_rec1)
  from Suc.hyps(1) [OF k rec] show ?case
    by (simp add: up off)
qed

lemma defaultLoop_months:
  "defaultLoop e start n oldPlan i acc = Inr newPlan \<Longrightarrow>
   map (\<lambda>c. Inr (month c)) newPlan
     = map (\<lambda>c. Inr (month c)) acc @ map (offsetMonthsToYYYYMM e (StringInput start)) [i..n - 1]"
proof (induction "nat (n - i)" arbitrary: i acc)
  case 0
  then have "\<not> i < n" by simp
  with 0 show ?case by (simp add: defaultLoop.simps)
next
  case (Suc k)
  then have lt: "i < n" and k: "k = nat (n - (i + 1))" by simp_all
  define src where "src = (if i < int (length oldPlan) then oldPlan ! nat i else oldPlan ! (length oldPlan - 1))"
  have unfold: "defaultLoop e start n oldPlan i acc =
      (case offsetMonthsToYYYYMM e (StringInput start) i of
         Inl err \<Rightarrow> Inl err
       | Inr m \<Rightarrow> defaultLoop e start n oldPlan (i + 1)
           (acc @ [\<lparr>month = m, capacity = capacity src, adjustment = adjustment src\<rparr>]))"
    unfolding src_def by (subst defaultLoop.simps) (simp add: lt Let_def)
  from Suc.prems obtain m where off: "offsetMonthsToYYYYMM e (StringInput start) i = Inr m"
    and rec: "defaultLoop e start n oldPlan (i + 1)
        (acc @ [\<lparr>month = m, capacity = capacity src, adjustment = adjustment src\<rparr>]) = Inr newPlan"
    unfolding unfold by (auto split: sum.splits)
  have up: "[i..n - 1] = i # [i + 1..n - 1]"
    using lt by (simp add: upto_rec1)
  from Suc.hyps(1) [OF k rec] show ?case
    by (simp add: up off)
qed

lemma months_distinct_of_offsets:
  assumes "map (\<lambda>c. Inr (month c)) newPlan = map (offsetMonthsToYYYYMM e inp) [i..j]"
  shows "distinct (map month newPlan)"
proof -
  let ?f = "offsetMonthsToYYYYMM e inp"
  have succ: "\<exists>k. ?f x = Inr k" if "x \<in> set [i..j]" for x
  proof -
    from that have "?f x \<in> set (map ?f [i..j])" by (simp del: set_upto)
    with assms have "?f x \<in> set (map (\<lambda>c. Inr (month c)) newPlan)" by simp
    then show ?thesis by auto
  qed
  have "inj_on ?f (set [i..j])"
  proof (rule inj_onI)
    fix x y assume x: "x \<in> set [i..j]" and y: "y \<in> set [i..j]" and eq: "?f x = ?f y"
    from succ [OF x] obtain k where k: "?f x = Inr k" by blast
    with eq have "?f y = Inr k" by simp
    with k show "x = y" by (rule offsetMonths_inj)
  qed
  then have "distinct (map ?f [i..j])" by (simp add: distinct_map)
  with assms have "distinct (map (\<lambda>c. Inr (month c) :: error + string) newPlan)" by simp
  moreover have "map (\<lambda>c. Inr (month c) :: error + string) newPlan = map Inr (map month newPlan)" by simp
  ultimately show ?thesis by (simp only: distinct_map)
qed

lemma recomputeCapacityPeriod_distinct:
  assumes "distinctMonths s"
  shows "distinctMonths (snd (recomputeCapacityPeriod e start end_month mode s))"
proof (cases "fst (recomputeCapacityPeriod e start end_month mode s)")
  case (Inl err)
  then have "snd (recomputeCapacityPeriod e start end_month mode s) = s"
    by (auto simp: recomputeCapacityPeriod_def Let_def split: if_splits sum.splits option.splits)
  with assms show ?thesis by simp
next
  case (Inr u)
  show ?thesis
  proof (cases "monthsInPeriod start end_month")
    case None
    with Inr have "planOrEmpty (snd (recomputeCapacityPeriod e start end_month mode s)) = []"
      by (auto simp: recomputeCapacityPeriod_def Let_def split: if_splits)
    then show ?thesis by (simp add: distinctMonths_def)
  next
    case (Some n)
    show ?thesis
    proof (cases mode)
      case DEFAULT
      with Inr Some obtain newPlan where l: "defaultLoop e start n (planOrEmpty s) 0 [] = Inr newPlan"
        and p: "planOrEmpty (snd (recomputeCapacityPeriod e start end_month mode s)) = newPlan"
        by (auto simp: recomputeCapacityPeriod_def Let_def split: if_splits sum.splits)
      from defaultLoop_months [OF l] have "distinct (map month newPlan)"
        by (intro months_distinct_of_offsets [of _ e "StringInput start" 0 "n - 1"]) simp
      with p show ?thesis by (simp add: distinctMonths_def)
    next
      case DISTRIBUTE
      with Inr Some obtain newPlan where l: "distributeLoop e start n (totalCapacity s div n)
            (js_remainder (totalCapacity s) n) 0 [] = Inr newPlan"
        and p: "planOrEmpty (snd (recomputeCapacityPeriod e start end_month mode s)) = newPlan"
        by (auto simp: recomputeCapacityPeriod_def Let_def split: if_splits sum.splits)
      from distributeLoop_months [OF l] have "distinct (map month newPlan)"
        by (intro months_distinct_of_offsets [of _ e "StringInput start" 0 "n - 1"]) simp
      with p show ?thesis by (simp add: distinctMonths_def)
    qed
  qed
qed

lemma generateLoop_months:
  "map month (generateLoop e months start growthRate currentUnits i acc)
     = map month acc
       @ map (\<lambda>j. localMonthKey (case start of
                                     None \<Rightarrow> None
                                   | Some d \<Rightarrow> Date_local (getFullYear e d) (getMonth e d + j)))
             [i..months - 1]"
proof (induction "nat (months - i)" arbitrary: i currentUnits acc)
  case 0
  then have "\<not> i < months" by simp
  then show ?case by (subst generateLoop.simps) simp
next
  case (Suc k)
  then have lt: "i < months" and k: "k = nat (months - (i + 1))" by simp_all
  have up: "[i..months - 1] = i # [i + 1..months - 1]"
    using lt by (simp add: upto_rec1)
  show ?case
    by (subst generateLoop.simps) (simp add: lt Suc.hyps(1) [OF k] up Let_def)
qed

lemma isValidYYYYMM_NaN: "\<not> isValidYYYYMM ''NaN-NaN''"
  by (simp add: isValidYYYYMM_def matchesFirstAlternative_def matchesSecondAlternative_def isDigit_def)

lemma Date_local_shape:
  "\<exists>c. \<forall>j d. Date_local y (m + j) = Some d \<longrightarrow> d = c + j"
proof -
  define y' where "y' = (if 0 \<le> y \<and> y \<le> 99 then 1900 + y else y)"
  have "d = (12 * y' + m) + j" if "Date_local y (m + j) = Some d" for j d
    using that by (auto simp: Date_local_def Date_UTC_def y'_def Let_def split: if_splits)
  then show ?thesis by blast
qed

lemma generated_months_distinct:
  assumes "list_all (\<lambda>c. isValidYYYYMM (month c)) (generateLoop e months start growthRate amt 0 [])"
  shows "distinct (map month (generateLoop e months start growthRate amt 0 []))"
proof -
  let ?D = "\<lambda>j. case start of None \<Rightarrow> None | Some d \<Rightarrow> Date_local (getFullYear e d) (getMonth e d + j)"
  have ms: "map month (generateLoop e months start growthRate amt 0 [])
      = map (\<lambda>j. localMonthKey (?D j)) [0..months - 1]"
    using generateLoop_months [of e months start growthRate amt 0 "[]"] by simp
  have valid: "isValidYYYYMM (localMonthKey (?D j))" if "j \<in> set [0..months - 1]" for j
  proof -
    from that have "localMonthKey (?D j) \<in> set (map month (generateLoop e months start growthRate amt 0 []))"
      unfolding ms by (simp del: set_upto)
    with assms show ?thesis by (auto simp: list_all_iff)
  qed
  have some: "\<exists>d. ?D j = Some d" if "j \<in> set [0..months - 1]" for j
    using valid [OF that] isValidYYYYMM_NaN by (cases "?D j") (auto simp: localMonthKey_def)
  have "inj_on (\<lambda>j. localMonthKey (?D j)) (set [0..months - 1])"
  proof (rule inj_onI)
    fix i j assume i: "i \<in> set [0..months - 1]" and j: "j \<in> set [0..months - 1]"
      and eq: "localMonthKey (?D i) = localMonthKey (?D j)"
    from some [OF i] obtain di where di: "?D i = Some di" by blast
    from some [OF j] obtain dj where dj: "?D j = Some dj" by blast
    from di obtain s0 where s0: "start = Some s0" by (cases start) simp_all
    from Date_local_shape [of "getFullYear e s0" "getMonth e s0"] obtain c
      where c: "\<And>j d. Date_local (getFullYear e s0) (getMonth e s0 + j) = Some d \<Longrightarrow> d = c + j"
      by blast
    from di dj s0 have "di = c + i" "dj = c + j" by (simp_all add: c)
    moreover from eq di dj have "monthKey di = monthKey dj" by (simp add: localMonthKey_Some)
    then have "di = dj" by (rule monthKey_inj)
    ultimately show "i = j" by simp
  qed
  then have "distinct (map (\<lambda>j. localMonthKey (?D j)) [0..months - 1])"
    by (simp add: distinct_map)
  then show ?thesis by (simp only: ms)
qed

lemma generateCapacityPlan_distinct:
  assumes "distinctMonths s"
  shows "distinctMonths (snd (generateCapacityPlan e months amt growthRate startDate s))"
proof (cases "fst (generateCapacityPlan e months amt growthRate startDate s)")
  case (Inl err)
  then have "snd (generateCapacityPlan e months amt growthRate startDate s) = s"
    by (auto simp: generateCapacityPlan_def setCapacity_def split: if_splits sum.splits)
  with assms show ?thesis by simp
next
  case (Inr u)
  then obtain start where "list_all (\<lambda>c. isValidYYYYMM (month c)) (generateLoop e months start growthRate amt 0 [])"
    and "planOrEmpty (snd (generateCapacityPlan e months amt growthRate startDate s))
        = generateLoop e months start growthRate amt 0 []"
    by (auto simp: generateCapacityPlan_def setCapacity_def split: if_splits sum.splits)
  then show ?thesis
    using generated_months_distinct by (simp add: distinctMonths_def)
qed

lemma recomputeFinance_plan: "planOrEmpty (snd (recomputeFinance s)) = planOrEmpty s"
  by (cases "financeSnapshot s") (simp_all add: recomputeFinance_def planOrEmpty_def)

lemma metadata_calls_keep_plan:
  "planOrEmpty (snd (setName e nm s)) = planOrEmpty s"
  "planOrEmpty (snd (setRate e rt s)) = planOrEmpty s"
  "planOrEmpty (snd (setRateUnit e u s)) = planOrEmpty s"
  "planOrEmpty (snd (setRateAmount e amt s)) = planOrEmpty s"
  "planOrEmpty (snd (setCategory e cat s)) = planOrEmpty s"
  "planOrEmpty (snd (setType e ty s)) = planOrEmpty s"
  by (simp_all add: setName_def setRate_def setRateUnit_def setRateAmount_def setCategory_def
      setType_def Let_def planOrEmpty_def)

lemma description_calls_keep_plan:
  "planOrEmpty (snd (setDescription e html txt s)) = planOrEmpty s"
  "planOrEmpty (snd (setDescriptionText e txt s)) = planOrEmpty s"
  "planOrEmpty (snd (setDescriptionHTML e html s)) = planOrEmpty s"
  "planOrEmpty (snd (setDescriptionSEO e txt s)) = planOrEmpty s"
  by (simp_all add: setDescription_def setDescriptionText_def setDescriptionHTML_def
      setDescriptionSEO_def)

lemma cos_calls_keep_plan:
  "planOrEmpty (snd (addCOS e nm cost q u s)) = planOrEmpty s"
  "planOrEmpty (snd (pushCOS e it s)) = planOrEmpty s"
  "planOrEmpty (snd (updateCOS e ident updates s)) = planOrEmpty s"
  "planOrEmpty (snd (setCOS e items s)) = planOrEmpty s"
  "planOrEmpty (snd (removeCOS e ident s)) = planOrEmpty s"
  "planOrEmpty (snd (clearCostBreakdown e s)) = planOrEmpty s"
  by (simp_all add: addCOS_def pushCOS_def updateCOS_def setCOS_def removeCOS_def
      clearCostBreakdown_def Let_def split: option.split)

lemma getters_keep_plan:
  "planOrEmpty (snd (grossRevenue s)) = planOrEmpty s"
  "planOrEmpty (snd (grossCost s)) = planOrEmpty s"
  "planOrEmpty (snd (grossProfit s)) = planOrEmpty s"
  "planOrEmpty (snd (netRevenue s)) = planOrEmpty s"
  "planOrEmpty (snd (netProfit s)) = planOrEmpty s"
  by (simp_all add: grossRevenue_def grossCost_def grossProfit_def netRevenue_def netProfit_def
      financeGetter_state recomputeFinance_plan)

lemma perform_distinct:
  assumes "distinctMonths s" and "replacesWithDistinctMonths c"
  shows "distinctMonths (perform e c s)"
proof (cases c)
  case (SetCapacity p)
  with assms show ?thesis by (simp add: replacesWithDistinctMonths_def setCapacity_distinct)
qed (use assms in \<open>simp_all add: addCapacity_distinct updateCapacityUnits_distinct
      updateCapacityAdjustment_distinct removeCapacity_distinct clearCapacity_distinct
      normalizeCapacityUnits_distinct applyTrial_distinct generateCapacityPlan_distinct
      recomputeCapacityPeriod_distinct\<close>,
    simp_all add: distinctMonths_def metadata_calls_keep_plan description_calls_keep_plan
      cos_calls_keep_plan getters_keep_plan)

lemma subscriptionAfter_distinct:
  assumes "distinctMonths s" and "list_all (\<lambda>(e, c). replacesWithDistinctMonths c) calls"
  shows "distinctMonths (subscriptionAfter calls s)"
  using assms unfolding subscriptionAfter_def
  by (induction calls arbitrary: s) (auto simp: perform_distinct)

lemma initialize_distinct:
  "initialize e nm ty rt cat descriptionText skuID = Inr s \<Longrightarrow> distinctMonths s"
  by (auto simp: initialize_def new_MajikSubscription_def distinctMonths_def planOrEmpty_def
      split: if_splits)

text \<open>
  Claim C6, as stated: every operation keeps at most one entry per month, \<^verbatim>\<open>addCapacity\<close>
  throws on a month that is present and \<^verbatim>\<open>setCapacity\<close> rejects an array with a month
  twice. \<^verbatim>\<open>setCapacity\<close> tests the format of each month only: it accepts the array
  below, and the plan then has the month 2025-01 twice.
\<close>

theorem setCapacity_accepts_duplicates:
  "fst (setCapacity exampleEnv exampleDuplicates exampleInitial) = Inr ()
   \<and> planOrEmpty (snd (setCapacity exampleEnv exampleDuplicates exampleInitial)) = exampleDuplicates
   \<and> \<not> distinctMonths (snd (setCapacity exampleEnv exampleDuplicates exampleInitial))
   \<and> distinctMonths exampleInitial"
  by (simp add: setCapacity_def exampleDuplicates_def distinctMonths_def)

text \<open>
  Claim C6, amended: every call of the public interface other than \<^verbatim>\<open>setCapacity\<close> keeps
  the months of the plan distinct, \<^verbatim>\<open>generateCapacityPlan\<close> and
  \<^verbatim>\<open>recomputeCapacityPeriod\<close> included; \<^verbatim>\<open>addCapacity\<close> throws on a valid month that
  is present and leaves the entries as they were; \<^verbatim>\<open>setCapacity\<close>, when it succeeds,
  installs the array it is given, and keeps the months distinct when those of the array
  are. So a plan stays free of duplicates through every sequence of calls in which
  \<^verbatim>\<open>setCapacity\<close> is given arrays with distinct months, from a plan with distinct
  months and from what \<^verbatim>\<open>initialize\<close> returns.
\<close>

theorem capacity_months_stay_distinct:
  "(isValidYYYYMM m \<and> list_ex (\<lambda>c. month c = m) (planOrEmpty s)
      \<longrightarrow> fst (addCapacity e m units adj s) = Inl DuplicateMonth
          \<and> planOrEmpty (snd (addCapacity e m units adj s)) = planOrEmpty s)
   \<and> (distinctMonths s
      \<longrightarrow> distinctMonths (snd (addCapacity e m units adj s))
          \<and> distinctMonths (snd (updateCapacityUnits e m units s))
          \<and> distinctMonths (snd (updateCapacityAdjustment e m adj s))
          \<and> distinctMonths (snd (removeCapacity e m s))
          \<and> distinctMonths (snd (clearCapacity e s))
          \<and> distinctMonths (snd (normalizeCapacityUnits e units s))
          \<and> distinctMonths (snd (applyTrial e months s))
          \<and> distinctMonths (snd (generateCapacityPlan e n amt growthRate startDate s))
          \<and> distinctMonths (snd (recomputeCapacityPeriod e start end_month mode s)))
   \<and> (fst (setCapacity e p s) = Inr ()
      \<longrightarrow> planOrEmpty (snd (setCapacity e p s)) = p
          \<and> distinctMonths (snd (setCapacity e p s)) = distinct (map month p))
   \<and> (distinct (map month p) \<and> distinctMonths s \<longrightarrow> distinctMonths (snd (setCapacity e p s)))
   \<and> (distinctMonths s \<and> replacesWithDistinctMonths c \<longrightarrow> distinctMonths (perform e c s))
   \<and> (distinctMonths s \<and> list_all (\<lambda>(e, c). replacesWithDistinctMonths c) calls
      \<longrightarrow> distinctMonths (subscriptionAfter calls s))
   \<and> (initialize e nm ty rt cat descriptionText skuID = Inr s
        \<and> list_all (\<lambda>(e, c). replacesWithDistinctMonths c) calls
      \<longrightarrow> distinctMonths (subscriptionAfter calls s))"
proof -
  have "distinctMonths (subscriptionAfter calls s)"
    if "initialize e nm ty rt cat descriptionText skuID = Inr s"
      and "list_all (\<lambda>(e, c). replacesWithDistinctMonths c) calls"
    using that by (intro subscriptionAfter_distinct initialize_distinct)
  then show ?thesis
    by (intro conjI impI)
      (simp_all add: addCapacity_duplicate addCapacity_distinct updateCapacityUnits_distinct
        updateCapacityAdjustment_distinct removeCapacity_distinct clearCapacity_distinct
        normalizeCapacityUnits_distinct applyTrial_distinct setCapacity_installs setCapacity_distinct
        generateCapacityPlan_distinct recomputeCapacityPeriod_distinct perform_distinct
        subscriptionAfter_distinct setCapacity_distinct_iff)
qed

theorem capacity_months_stay_distinct_witness:
  "distinctMonths exampleUnsorted
   \<and> fst (addCapacity exampleEnv ''2025-01'' 5 None exampleUnsorted) = Inl DuplicateMonth
   \<and> planOrEmpty (snd (addCapacity exampleEnv ''2025-01'' 5 None exampleUnsorted)) = planOrEmpty exampleUnsorted
   \<and> distinctMonths (snd (applyTrial exampleEnv 1 exampleUnsorted))
   \<and> distinctMonths (snd (generateCapacityPlan exampleEnv 2 5 0 (Some (StringInput ''2025-03'')) exampleUnsorted))
   \<and> distinctMonths (snd (recomputeCapacityPeriod exampleEnv ''2025-01'' ''2025-02'' DISTRIBUTE exampleUnsorted))
   \<and> distinctMonths (perform exampleEnv (SetCapacity [\<lparr>month = ''2025-01'', capacity = 1, adjustment = None\<rparr>]) exampleUnsorted)
   \<and> distinctMonths (subscriptionAfter
        [(exampleEnv, AddCapacity ''2025-02'' 20 None),
         (exampleEnv, RecomputeCapacityPeriod ''2025-01'' ''2025-02'' DEFAULT)] exampleInitial)
   \<and> fst (setCapacity exampleEnv [\<lparr>month = ''2025-01'', capacity = 1, adjustment = None\<rparr>] exampleUnsorted) = Inr ()
   \<and> planOrEmpty (snd (setCapacity exampleEnv [\<lparr>month = ''2025-01'', capacity = 1, adjustment = None\<rparr>] exampleUnsorted))
       = [\<lparr>month = ''2025-01'', capacity = 1, adjustment = None\<rparr>]
   \<and> distinctMonths (snd (setCapacity exampleEnv [\<lparr>month = ''2025-01'', capacity = 1, adjustment = None\<rparr>] exampleUnsorted))"
proof -
  have ok: "fst (setCapacity exampleEnv [\<lparr>month = ''2025-01'', capacity = 1, adjustment = None\<rparr>] exampleUnsorted) = Inr ()"
    by (simp add: setCapacity_def)
  have d: "distinctMonths exampleUnsorted" by (simp add: distinctMonths_def)
  have l: "isValidYYYYMM ''2025-01'' \<and> list_ex (\<lambda>c. month c = ''2025-01'') (planOrEmpty exampleUnsorted)"
    by simp
  have r: "replacesWithDistinctMonths (SetCapacity [\<lparr>month = ''2025-01'', capacity = 1, adjustment = None\<rparr>])"
    by (simp add: replacesWithDistinctMonths_def)
  have calls: "list_all (\<lambda>(e, c). replacesWithDistinctMonths c)
      [(exampleEnv, AddCapacity ''2025-02'' 20 None),
       (exampleEnv, RecomputeCapacityPeriod ''2025-01'' ''2025-02'' DEFAULT)]"
    by (simp add: replacesWithDistinctMonths_def)
  note t = capacity_months_stay_distinct [where s = exampleUnsorted and e = exampleEnv
      and m = "''2025-01''" and units = 5 and adj = None and months = 1
      and n = 2 and amt = 5 and growthRate = 0 and startDate = "Some (StringInput ''2025-03'')"
      and start = "''2025-01''" and end_month = "''2025-02''" and mode = DISTRIBUTE
      and c = "SetCapacity [\<lparr>month = ''2025-01'', capacity = 1, adjustment = None\<rparr>]"
      and p = "[\<lparr>month = ''2025-01'', capacity = 1, adjustment = None\<rparr>]"]
  note u = capacity_months_stay_distinct [where s = exampleInitial and e = exampleEnv
      and nm = "''Pro Plan''" and ty = RECURRING and rt = exampleRate and cat = "''Other''"
      and descriptionText = None and skuID = None
      and calls = "[(exampleEnv, AddCapacity ''2025-02'' 20 None),
         (exampleEnv, RecomputeCapacityPeriod ''2025-01'' ''2025-02'' DEFAULT)]"]
  have a: "fst (addCapacity exampleEnv ''2025-01'' 5 None exampleUnsorted) = Inl DuplicateMonth
      \<and> planOrEmpty (snd (addCapacity exampleEnv ''2025-01'' 5 None exampleUnsorted)) = planOrEmpty exampleUnsorted"
    using t [THEN conjunct1] l by blast
  have b: "distinctMonths (snd (applyTrial exampleEnv 1 exampleUnsorted))
      \<and> distinctMonths (snd (generateCapacityPlan exampleEnv 2 5 0 (Some (StringInput ''2025-03'')) exampleUnsorted))
      \<and> distinctMonths (snd (recomputeCapacityPeriod exampleEnv ''2025-01'' ''2025-02'' DISTRIBUTE exampleUnsorted))"
    using t [THEN conjunct2, THEN conjunct1] d by blast
  have c: "distinctMonths (perform exampleEnv (SetCapacity [\<lparr>month = ''2025-01'', capacity = 1, adjustment = None\<rparr>]) exampleUnsorted)"
    using t [THEN conjunct2, THEN conjunct2, THEN conjunct2, THEN conjunct2, THEN conjunct1] d r by blast
  have e: "distinctMonths (subscriptionAfter
        [(exampleEnv, AddCapacity ''2025-02'' 20 None),
         (exampleEnv, RecomputeCapacityPeriod ''2025-01'' ''2025-02'' DEFAULT)] exampleInitial)"
    using u [THEN conjunct2, THEN conjunct2, THEN conjunct2, THEN conjunct2, THEN conjunct2, THEN conjunct2]
      initialize_example calls by blast
  have f: "planOrEmpty (snd (setCapacity exampleEnv [\<lparr>month = ''2025-01'', capacity = 1, adjustment = None\<rparr>] exampleUnsorted))
       = [\<lparr>month = ''2025-01'', capacity = 1, adjustment = None\<rparr>]"
    using t [THEN conjunct2, THEN conjunct2, THEN conjunct1] ok by blast
  have g: "distinctMonths (snd (setCapacity exampleEnv [\<lparr>month = ''2025-01'', capacity = 1, adjustment = None\<rparr>] exampleUnsorted))"
    using t [THEN conjunct2, THEN conjunct2, THEN conjunct2, THEN conjunct1] d by simp
  from d a b c e ok f g show ?thesis by blast
qed

section \<open>Resizing the period\<close>

lemma monthsInPeriod_example: "monthsInPeriod ''2025-01'' ''2025-02'' = Some 2"
  by (simp add: monthsInPeriod_def yyyyMMToDate_def Number_of_def isDigit_def decimalValue_def
      digitValue_def Date_UTC_def getUTCFullYear_def getUTCMonth_def)

lemma hasCapacity_examples [simp]: "hasCapacity exampleNegative" "hasCapacity exampleUnsorted"
  using exampleNegative_fields(1) exampleUnsorted_fields(1)
  by (auto simp: hasCapacity_def planOrEmpty_def split: option.splits)

lemma totalCapacity_exampleNegative: "totalCapacity exampleNegative = - 1"
  by (simp add: totalCapacity_def)

lemma offsetMonths_examples:
  "offsetMonthsToYYYYMM exampleEnv (StringInput ''2025-01'') 0 = Inr ''2025-01''"
  "offsetMonthsToYYYYMM exampleEnv (StringInput ''2025-01'') 1 = Inr ''2025-02''"
  by (simp_all add: offsetMonthsToYYYYMM_def normalizeStartDate_def matchesYearMonth_def isDigit_def
      Number_of_def decimalValue_def digitValue_def Date_UTC_def getUTCFullYear_def getUTCMonth_def
      dateToYYYYMM_def String_of_def showNat.simps padStart2_def)

text \<open>
  Claim C1: \<^verbatim>\<open>recomputeCapacityPeriod(start, end, DISTRIBUTE)\<close> keeps the total of the
  effective units. With a negative total the code does not: the plan below has the total
  -1, the quotient \<^verbatim>\<open>Math.floor(-1 / 2)\<close> is -1 and the remainder \<^verbatim>\<open>-1 % 2\<close> is -1,
  so no month gets the extra unit and the new total is -2.
\<close>

theorem distribute_negative_total:
  "hasCapacity exampleNegative
   \<and> totalCapacity exampleNegative = - 1
   \<and> monthsInPeriod ''2025-01'' ''2025-02'' = Some 2
   \<and> fst (recomputeCapacityPeriod exampleEnv ''2025-01'' ''2025-02'' DISTRIBUTE exampleNegative) = Inr ()
   \<and> planOrEmpty (snd (recomputeCapacityPeriod exampleEnv ''2025-01'' ''2025-02'' DISTRIBUTE exampleNegative))
       = [\<lparr>month = ''2025-01'', capacity = - 1, adjustment = None\<rparr>,
          \<lparr>month = ''2025-02'', capacity = - 1, adjustment = None\<rparr>]
   \<and> totalCapacity (snd (recomputeCapacityPeriod exampleEnv ''2025-01'' ''2025-02'' DISTRIBUTE exampleNegative)) = - 2"
proof -
  have loop: "distributeLoop exampleEnv ''2025-01'' 2 (- 1) (- 1) 0 [] =
      Inr [\<lparr>month = ''2025-01'', capacity = - 1, adjustment = None\<rparr>,
           \<lparr>month = ''2025-02'', capacity = - 1, adjustment = None\<rparr>]"
    by (simp add: distributeLoop.simps offsetMonths_examples)
  have r: "recomputeCapacityPeriod exampleEnv ''2025-01'' ''2025-02'' DISTRIBUTE exampleNegative =
      (Inr (), markFinanceDirty (updateTimestamp exampleEnv (set_capacityPlan
         (Some [\<lparr>month = ''2025-01'', capacity = - 1, adjustment = None\<rparr>,
                \<lparr>month = ''2025-02'', capacity = - 1, adjustment = None\<rparr>]) exampleNegative)))"
    by (simp add: recomputeCapacityPeriod_def monthsInPeriod_example totalCapacity_exampleNegative
        js_remainder_def loop)
  show ?thesis
    by (simp add: r monthsInPeriod_example totalCapacity_exampleNegative) (simp add: totalCapacity_def)
qed

text \<open>
  Claim C2: \<^verbatim>\<open>recomputeCapacityPeriod(start, end, DEFAULT)\<close> gives the i-th new month the
  values of the i-th entry of the existing plan sorted by month. The code reads the plan in
  the order it is stored: for the plan stored as February (20 units), January (10 units)
  the new January gets 20 units and the new February 10.
\<close>

theorem default_mode_storage_order:
  "planOrEmpty exampleUnsorted
       = [\<lparr>month = ''2025-02'', capacity = 20, adjustment = None\<rparr>,
          \<lparr>month = ''2025-01'', capacity = 10, adjustment = None\<rparr>]
   \<and> sort_key month (planOrEmpty exampleUnsorted)
       = [\<lparr>month = ''2025-01'', capacity = 10, adjustment = None\<rparr>,
          \<lparr>month = ''2025-02'', capacity = 20, adjustment = None\<rparr>]
   \<and> fst (recomputeCapacityPeriod exampleEnv ''2025-01'' ''2025-02'' DEFAULT exampleUnsorted) = Inr ()
   \<and> planOrEmpty (snd (recomputeCapacityPeriod exampleEnv ''2025-01'' ''2025-02'' DEFAULT exampleUnsorted))
       = [\<lparr>month = ''2025-01'', capacity = 20, adjustment = None\<rparr>,
          \<lparr>month = ''2025-02'', capacity = 10, adjustment = None\<rparr>]"
proof -
  have loop: "defaultLoop exampleEnv ''2025-01'' 2
        [\<lparr>month = ''2025-02'', capacity = 20, adjustment = None\<rparr>,
         \<lparr>month = ''2025-01'', capacity = 10, adjustment = None\<rparr>] 0 [] =
      Inr [\<lparr>month = ''2025-01'', capacity = 20, adjustment = None\<rparr>,
           \<lparr>month = ''2025-02'', capacity = 10, adjustment = None\<rparr>]"
    by (simp add: defaultLoop.simps offsetMonths_examples)
  have r: "recomputeCapacityPeriod exampleEnv ''2025-01'' ''2025-02'' DEFAULT exampleUnsorted =
      (Inr (), markFinanceDirty (updateTimestamp exampleEnv (set_capacityPlan
         (Some [\<lparr>month = ''2025-01'', capacity = 20, adjustment = None\<rparr>,
                \<lparr>month = ''2025-02'', capacity = 10, adjustment = None\<rparr>]) exampleUnsorted)))"
    by (simp add: recomputeCapacityPeriod_def monthsInPeriod_example loop)
  show ?thesis
    by (simp add: r)
qed

section \<open>Generating a plan\<close>

lemma Math_round_of_int: "Math_round (of_int n) = n"
  unfolding Math_round_def by (rule floor_unique) simp_all

lemma Math_round_5: "Math_round 5 = 5"
  using Math_round_of_int [of 5] by simp

lemma localMonthKey_examples:
  "localMonthKey (Some 24301) = ''2025-02''" "localMonthKey (Some 24302) = ''2025-03''"
  "localMonthKey (Some 119999) = ''9999-12''" "localMonthKey (Some 120000) = ''10000-01''"
  by (simp_all add: localMonthKey_def String_of_def showNat.simps padStart2_def)

lemma normalizeStartDate_examples:
  "normalizeStartDate e (Some (StringInput ''2025-03'')) = Inr (Some 24302)"
  "normalizeStartDate e (Some (StringInput ''9999-12'')) = Inr (Some 119999)"
  by (simp_all add: normalizeStartDate_def matchesYearMonth_def isDigit_def Number_of_def
      decimalValue_def digitValue_def Date_UTC_def)

lemma generateLoop_examples:
  "generateLoop exampleEnvWest 2 (Some 24302) 0 5 0 [] =
      [\<lparr>month = ''2025-02'', capacity = 5, adjustment = None\<rparr>,
       \<lparr>month = ''2025-03'', capacity = 5, adjustment = None\<rparr>]"
  "generateLoop exampleEnv 2 (Some 119999) 0 5 0 [] =
      [\<lparr>month = ''9999-12'', capacity = 5, adjustment = None\<rparr>,
       \<lparr>month = ''10000-01'', capacity = 5, adjustment = None\<rparr>]"
  by (simp_all add: generateLoop.simps getFullYear_def getMonth_def localMonthOfUTCFirst_def
      Date_local_def Date_UTC_def exampleEnv_def exampleEnvWest_def localMonthKey_examples Math_round_5)

lemma isValidYYYYMM_more:
  "isValidYYYYMM ''2025-03''" "\<not> isValidYYYYMM ''10000-01''"
  by (simp_all add: isValidYYYYMM_def matchesFirstAlternative_def matchesSecondAlternative_def isDigit_def)

text \<open>
  Claim C8: \<^verbatim>\<open>generateCapacityPlan(months, amount, 0, start)\<close> writes \<open>months\<close> entries
  from the first of the UTC month of the start. The start is normalized to midnight UTC of
  2025-03-01, and the loop reads it with the getters of local time: five hours west of
  Greenwich the plan starts at 2025-02. A plan that reaches the year 10000 is rejected by
  \<^verbatim>\<open>setCapacity\<close>.
\<close>

theorem generateCapacityPlan_west_of_Greenwich:
  "normalizeStartDate exampleEnvWest (Some (StringInput ''2025-03'')) = Inr (Some (12 * 2025 + 2))
   \<and> dateToYYYYMM (Some (12 * 2025 + 2)) = Inr ''2025-03''
   \<and> fst (generateCapacityPlan exampleEnvWest 2 5 0 (Some (StringInput ''2025-03'')) exampleInitial) = Inr ()
   \<and> planOrEmpty (snd (generateCapacityPlan exampleEnvWest 2 5 0 (Some (StringInput ''2025-03'')) exampleInitial))
       = [\<lparr>month = ''2025-02'', capacity = 5, adjustment = None\<rparr>,
          \<lparr>month = ''2025-03'', capacity = 5, adjustment = None\<rparr>]
   \<and> fst (generateCapacityPlan exampleEnv 2 5 0 (Some (StringInput ''9999-12'')) exampleInitial) = Inl InvalidMonth"
proof -
  have d: "dateToYYYYMM (Some (12 * 2025 + 2)) = Inr ''2025-03''"
    by (simp add: dateToYYYYMM_def getUTCFullYear_def getUTCMonth_def String_of_def showNat.simps padStart2_def)
  have g: "generateCapacityPlan exampleEnvWest 2 5 0 (Some (StringInput ''2025-03'')) exampleInitial =
      setCapacity exampleEnvWest
        [\<lparr>month = ''2025-02'', capacity = 5, adjustment = None\<rparr>,
         \<lparr>month = ''2025-03'', capacity = 5, adjustment = None\<rparr>] exampleInitial"
    by (simp add: generateCapacityPlan_def normalizeStartDate_examples generateLoop_examples)
  have ok: "fst (generateCapacityPlan exampleEnvWest 2 5 0 (Some (StringInput ''2025-03'')) exampleInitial) = Inr ()"
    by (simp add: g setCapacity_def isValidYYYYMM_more)
  have plan: "planOrEmpty (snd (generateCapacityPlan exampleEnvWest 2 5 0 (Some (StringInput ''2025-03'')) exampleInitial))
       = [\<lparr>month = ''2025-02'', capacity = 5, adjustment = None\<rparr>,
          \<lparr>month = ''2025-03'', capacity = 5, adjustment = None\<rparr>]"
    by (simp add: g setCapacity_def isValidYYYYMM_more)
  have late: "fst (generateCapacityPlan exampleEnv 2 5 0 (Some (StringInput ''9999-12'')) exampleInitial) = Inl InvalidMonth"
    by (simp add: generateCapacityPlan_def normalizeStartDate_examples generateLoop_examples
        setCapacity_def isValidYYYYMM_more)
  have n: "normalizeStartDate exampleEnvWest (Some (StringInput ''2025-03'')) = Inr (Some (12 * 2025 + 2))"
    by (simp add: normalizeStartDate_examples)
  from n d ok plan late show ?thesis by blast
qed

end
